theory Spec2Isabelle
  imports Main "HOL-Library.Word"
begin

text \<open>
  A model of the \<open>aws_route\<close> resource of the Terraform AWS provider
  (\<open>aws/resource_aws_route.go\<close>): the target selection and the payloads of create and
  update, the route identity, the route lookup, and the four lifecycle operations over a
  remote routing API that is an arbitrary state machine. The definitions come first, the
  theorems after them, grouped by component.
\<close>

section \<open>Go strings and formatting\<close>

text \<open>
  Strings are byte lists. \<open>strings.Contains\<close>, \<open>strings.Join\<close> and \<open>strings.Split\<close>
  (with a one-byte separator, as the importer uses it) are written out; \<open>Sprintf_d\<close> is the
  \<open>%d\<close> verb of \<open>fmt.Sprintf\<close> on an \<open>int\<close>.
\<close>

definition strings_HasPrefix :: "string \<Rightarrow> string \<Rightarrow> bool" where
  "strings_HasPrefix s p = (take (length p) s = p)"

fun strings_Contains :: "string \<Rightarrow> string \<Rightarrow> bool" where
  "strings_Contains [] sub = (sub = [])"
| "strings_Contains (c # cs) sub =
     (strings_HasPrefix (c # cs) sub \<or> strings_Contains cs sub)"

fun strings_Join :: "string list \<Rightarrow> string \<Rightarrow> string" where
  "strings_Join [] sep = []"
| "strings_Join [x] sep = x"
| "strings_Join (x # y # ys) sep = x @ sep @ strings_Join (y # ys) sep"

fun strings_Split :: "string \<Rightarrow> char \<Rightarrow> string list" where
  "strings_Split [] sep = [[]]"
| "strings_Split (c # cs) sep =
     (if c = sep then [] # strings_Split cs sep
      else (case strings_Split cs sep of
              [] \<Rightarrow> [[c]]
            | p # ps \<Rightarrow> (c # p) # ps))"

fun decimal :: "nat \<Rightarrow> string" where
  "decimal n =
     (if n < 10 then [''0123456789'' ! n]
      else decimal (n div 10) @ [''0123456789'' ! (n mod 10)])"

declare decimal.simps [simp del]

definition Sprintf_d :: "int \<Rightarrow> string" where
  "Sprintf_d i = (if i < 0 then CHR ''-'' # decimal (nat (- i)) else decimal (nat i))"

section \<open>Errors\<close>

text \<open>
  A Go \<open>error\<close> value is \<open>error option\<close>, \<open>None\<close> being \<open>nil\<close>.
  \<open>AWSError code message\<close> is an error of the AWS SDK, \<open>ErrorNew\<close> the result of
  \<open>errors.New\<close>, \<open>Errorf format args\<close> the result of \<open>fmt.Errorf\<close> with its format
  string and its arguments kept as they are passed, and \<open>TimeoutError lastError\<close> the
  retry helper's timeout with the last error it saw.
\<close>

datatype error =
    AWSError string string
  | ErrorNew string
  | Errorf string "fmtArg list"
  | TimeoutError "error option"
and fmtArg =
    ArgString string
  | ArgError error

definition routeTargetValidationError :: error where
  "routeTargetValidationError =
     ErrorNew (''Error: more than 1 target specified. Only 1 of gateway_id, '' @
       ''egress_only_gateway_id, nat_gateway_id, instance_id, network_interface_id, local_gateway_id or '' @
       ''vpc_peering_connection_id is allowed.'')"

text \<open>
  Modelled from the spec: \<open>isAWSErr\<close> is a helper of the provider that is not in the
  source file. It recognises a remote rejection by its kind: an error of the AWS SDK whose
  code is the given one and whose message contains the given text (the empty text in every
  call of the source file).
\<close>

definition isAWSErr :: "error option \<Rightarrow> string \<Rightarrow> string \<Rightarrow> bool" where
  "isAWSErr err code message =
     (case err of
        Some (AWSError c m) \<Rightarrow> c = code \<and> strings_Contains m message
      | _ \<Rightarrow> False)"

text \<open>
  Modelled from the spec: \<open>isResourceTimeoutError\<close> is a helper of the provider that is
  not in the source file. It recognises the timeout of the convergence loop (spec section
  4.4 and the design notes: the extra attempt is made on timeout, and only then).
\<close>

definition isResourceTimeoutError :: "error option \<Rightarrow> bool" where
  "isResourceTimeoutError err = (case err of Some (TimeoutError lastError) \<Rightarrow> True | _ \<Rightarrow> False)"

section \<open>Resource data and remote records\<close>

text \<open>
  \<open>schema.ResourceData\<close>: the identifier and the string attributes, read by name.
  \<open>d.Get\<close> of an unset string attribute is the empty string, and \<open>d.GetOk\<close> reports
  whether the value is non-empty.
\<close>

record ResourceData =
  ID :: string
  attrs :: "string \<Rightarrow> string"

definition Get :: "ResourceData \<Rightarrow> string \<Rightarrow> string" where
  "Get d key = attrs d key"

definition GetOk :: "ResourceData \<Rightarrow> string \<Rightarrow> string \<times> bool" where
  "GetOk d key = (attrs d key, attrs d key \<noteq> [])"

definition SetId :: "ResourceData \<Rightarrow> string \<Rightarrow> ResourceData" where
  "SetId d v = d\<lparr>ID := v\<rparr>"

definition aws_StringValue :: "string option \<Rightarrow> string" where
  "aws_StringValue p = (case p of None \<Rightarrow> [] | Some s \<Rightarrow> s)"

text \<open>\<open>d.Set\<close> of a \<open>*string\<close>: a nil pointer stores the empty string.\<close>

definition Set_attr :: "ResourceData \<Rightarrow> string \<Rightarrow> string option \<Rightarrow> ResourceData" where
  "Set_attr d key p = d\<lparr>attrs := (attrs d)(key := aws_StringValue p)\<rparr>"

text \<open>\<open>ec2.Route\<close>: every field is a \<open>*string\<close>.\<close>

record Route =
  DestinationCidrBlock :: "string option"
  DestinationIpv6CidrBlock :: "string option"
  DestinationPrefixListId :: "string option"
  GatewayId :: "string option"
  EgressOnlyInternetGatewayId :: "string option"
  NatGatewayId :: "string option"
  LocalGatewayId :: "string option"
  InstanceId :: "string option"
  InstanceOwnerId :: "string option"
  NetworkInterfaceId :: "string option"
  Origin :: "string option"
  State :: "string option"
  TransitGatewayId :: "string option"
  VpcPeeringConnectionId :: "string option"

text \<open>
  \<open>ec2.RouteTable\<close>, reduced to its routes. The response's route list holds route
  records (the SDK's decoder yields no nil element).
\<close>

record RouteTable =
  Routes :: "Route list"

text \<open>
  \<open>ec2.CreateRouteInput\<close> and \<open>ec2.ReplaceRouteInput\<close> have the same fields; one record
  stands for both, its fields prefixed \<open>opts_\<close>.
\<close>

record RouteInput =
  opts_RouteTableId :: "string option"
  opts_DestinationCidrBlock :: "string option"
  opts_DestinationIpv6CidrBlock :: "string option"
  opts_GatewayId :: "string option"
  opts_EgressOnlyInternetGatewayId :: "string option"
  opts_NatGatewayId :: "string option"
  opts_LocalGatewayId :: "string option"
  opts_InstanceId :: "string option"
  opts_NetworkInterfaceId :: "string option"
  opts_TransitGatewayId :: "string option"
  opts_VpcPeeringConnectionId :: "string option"

type_synonym CreateRouteInput = RouteInput
type_synonym ReplaceRouteInput = RouteInput

definition emptyRouteInput :: RouteInput where
  "emptyRouteInput =
     \<lparr>opts_RouteTableId = None, opts_DestinationCidrBlock = None,
      opts_DestinationIpv6CidrBlock = None, opts_GatewayId = None,
      opts_EgressOnlyInternetGatewayId = None, opts_NatGatewayId = None,
      opts_LocalGatewayId = None, opts_InstanceId = None, opts_NetworkInterfaceId = None,
      opts_TransitGatewayId = None, opts_VpcPeeringConnectionId = None\<rparr>"

record DeleteRouteInput =
  del_RouteTableId :: "string option"
  del_DestinationCidrBlock :: "string option"
  del_DestinationIpv6CidrBlock :: "string option"

section \<open>Target selection and payloads\<close>

definition create_allowedTargets :: "string list" where
  "create_allowedTargets =
     [''egress_only_gateway_id'', ''gateway_id'', ''nat_gateway_id'', ''local_gateway_id'',
      ''instance_id'', ''network_interface_id'', ''transit_gateway_id'',
      ''vpc_peering_connection_id'']"

definition update_allowedTargets :: "string list" where
  "update_allowedTargets =
     [''egress_only_gateway_id'', ''gateway_id'', ''nat_gateway_id'', ''local_gateway_id'',
      ''network_interface_id'', ''instance_id'', ''transit_gateway_id'',
      ''vpc_peering_connection_id'']"

text \<open>
  The loop \<open>for _, target := range allowedTargets\<close> of create and update: the pair is
  \<open>(numTargets, setTarget)\<close>.
\<close>

fun countTargets :: "ResourceData \<Rightarrow> string list \<Rightarrow> nat \<times> string \<Rightarrow> nat \<times> string" where
  "countTargets d [] acc = acc"
| "countTargets d (target # rest) (numTargets, setTarget) =
     (if length (Get d target) > 0 then countTargets d rest (numTargets + 1, target)
      else countTargets d rest (numTargets, setTarget))"

text \<open>
  The two \<open>d.GetOk\<close> blocks that five cases of create's switch repeat: a destination is
  put into the payload when it is non-empty.
\<close>

definition create_setDestinations :: "ResourceData \<Rightarrow> CreateRouteInput \<Rightarrow> CreateRouteInput" where
  "create_setDestinations d createOpts =
     (let opts1 = (case GetOk d ''destination_cidr_block'' of
                     (v, ok) \<Rightarrow> if ok then createOpts\<lparr>opts_DestinationCidrBlock := Some v\<rparr>
                                else createOpts)
      in (case GetOk d ''destination_ipv6_cidr_block'' of
            (v, ok) \<Rightarrow> if ok then opts1\<lparr>opts_DestinationIpv6CidrBlock := Some v\<rparr>
                       else opts1))"

text \<open>The \<open>switch setTarget\<close> of create (lines 180 to 271).\<close>

definition create_switch :: "ResourceData \<Rightarrow> string \<Rightarrow> error + CreateRouteInput" where
  "create_switch d setTarget =
     (if setTarget = ''gateway_id'' then
        Inr (create_setDestinations d
          (emptyRouteInput\<lparr>opts_RouteTableId := Some (Get d ''route_table_id''),
             opts_GatewayId := Some (Get d ''gateway_id'')\<rparr>))
      else if setTarget = ''egress_only_gateway_id'' then
        Inr (emptyRouteInput\<lparr>opts_RouteTableId := Some (Get d ''route_table_id''),
               opts_DestinationIpv6CidrBlock := Some (Get d ''destination_ipv6_cidr_block''),
               opts_EgressOnlyInternetGatewayId := Some (Get d ''egress_only_gateway_id'')\<rparr>)
      else if setTarget = ''nat_gateway_id'' then
        Inr (emptyRouteInput\<lparr>opts_RouteTableId := Some (Get d ''route_table_id''),
               opts_DestinationCidrBlock := Some (Get d ''destination_cidr_block''),
               opts_NatGatewayId := Some (Get d ''nat_gateway_id'')\<rparr>)
      else if setTarget = ''local_gateway_id'' then
        Inr (emptyRouteInput\<lparr>opts_RouteTableId := Some (Get d ''route_table_id''),
               opts_DestinationCidrBlock := Some (Get d ''destination_cidr_block''),
               opts_LocalGatewayId := Some (Get d ''local_gateway_id'')\<rparr>)
      else if setTarget = ''instance_id'' then
        Inr (create_setDestinations d
          (emptyRouteInput\<lparr>opts_RouteTableId := Some (Get d ''route_table_id''),
             opts_InstanceId := Some (Get d ''instance_id'')\<rparr>))
      else if setTarget = ''network_interface_id'' then
        Inr (create_setDestinations d
          (emptyRouteInput\<lparr>opts_RouteTableId := Some (Get d ''route_table_id''),
             opts_NetworkInterfaceId := Some (Get d ''network_interface_id'')\<rparr>))
      else if setTarget = ''transit_gateway_id'' then
        Inr (create_setDestinations d
          (emptyRouteInput\<lparr>opts_RouteTableId := Some (Get d ''route_table_id''),
             opts_TransitGatewayId := Some (Get d ''transit_gateway_id'')\<rparr>))
      else if setTarget = ''vpc_peering_connection_id'' then
        Inr (create_setDestinations d
          (emptyRouteInput\<lparr>opts_RouteTableId := Some (Get d ''route_table_id''),
             opts_VpcPeeringConnectionId := Some (Get d ''vpc_peering_connection_id'')\<rparr>))
      else
        Inl (Errorf ''A valid target type is missing. Specify one of the following attributes: %s''
               [ArgString (strings_Join create_allowedTargets '', '')]))"

text \<open>
  Lines 153 to 271 of \<open>resourceAwsRouteCreate\<close>: the count, the check
  \<open>numTargets > 1\<close> and the switch. The result is the selected target and the payload.
\<close>

definition create_payload :: "ResourceData \<Rightarrow> error + (string \<times> CreateRouteInput)" where
  "create_payload d =
     (case countTargets d create_allowedTargets (0, []) of
        (numTargets, setTarget) \<Rightarrow>
          if numTargets > 1 then Inl routeTargetValidationError
          else (case create_switch d setTarget of
                  Inl e \<Rightarrow> Inl e
                | Inr createOpts \<Rightarrow> Inr (setTarget, createOpts)))"

text \<open>The first \<open>switch setTarget\<close> of update (lines 420 to 432): \<open>True\<close> when it returns
  \<open>routeTargetValidationError\<close>.\<close>

definition update_tooManyTargets :: "ResourceData \<Rightarrow> nat \<Rightarrow> string \<Rightarrow> bool" where
  "update_tooManyTargets d numTargets setTarget =
     (if setTarget = ''instance_id'' then
        numTargets > 2 \<or> (numTargets = 2 \<and> length (Get d ''network_interface_id'') = 0)
      else numTargets > 1)"

text \<open>The second \<open>switch setTarget\<close> of update (lines 436 to 487).\<close>

definition update_switch :: "ResourceData \<Rightarrow> string \<Rightarrow> error + ReplaceRouteInput" where
  "update_switch d setTarget =
     (if setTarget = ''gateway_id'' then
        Inr (emptyRouteInput\<lparr>opts_RouteTableId := Some (Get d ''route_table_id''),
               opts_DestinationCidrBlock := Some (Get d ''destination_cidr_block''),
               opts_GatewayId := Some (Get d ''gateway_id'')\<rparr>)
      else if setTarget = ''egress_only_gateway_id'' then
        Inr (emptyRouteInput\<lparr>opts_RouteTableId := Some (Get d ''route_table_id''),
               opts_DestinationIpv6CidrBlock := Some (Get d ''destination_ipv6_cidr_block''),
               opts_EgressOnlyInternetGatewayId := Some (Get d ''egress_only_gateway_id'')\<rparr>)
      else if setTarget = ''nat_gateway_id'' then
        Inr (emptyRouteInput\<lparr>opts_RouteTableId := Some (Get d ''route_table_id''),
               opts_DestinationCidrBlock := Some (Get d ''destination_cidr_block''),
               opts_NatGatewayId := Some (Get d ''nat_gateway_id'')\<rparr>)
      else if setTarget = ''local_gateway_id'' then
        Inr (emptyRouteInput\<lparr>opts_RouteTableId := Some (Get d ''route_table_id''),
               opts_DestinationCidrBlock := Some (Get d ''destination_cidr_block''),
               opts_LocalGatewayId := Some (Get d ''local_gateway_id'')\<rparr>)
      else if setTarget = ''instance_id'' then
        Inr (emptyRouteInput\<lparr>opts_RouteTableId := Some (Get d ''route_table_id''),
               opts_DestinationCidrBlock := Some (Get d ''destination_cidr_block''),
               opts_InstanceId := Some (Get d ''instance_id'')\<rparr>)
      else if setTarget = ''network_interface_id'' then
        Inr (emptyRouteInput\<lparr>opts_RouteTableId := Some (Get d ''route_table_id''),
               opts_DestinationCidrBlock := Some (Get d ''destination_cidr_block''),
               opts_NetworkInterfaceId := Some (Get d ''network_interface_id'')\<rparr>)
      else if setTarget = ''transit_gateway_id'' then
        Inr (emptyRouteInput\<lparr>opts_RouteTableId := Some (Get d ''route_table_id''),
               opts_DestinationCidrBlock := Some (Get d ''destination_cidr_block''),
               opts_TransitGatewayId := Some (Get d ''transit_gateway_id'')\<rparr>)
      else if setTarget = ''vpc_peering_connection_id'' then
        Inr (emptyRouteInput\<lparr>opts_RouteTableId := Some (Get d ''route_table_id''),
               opts_DestinationCidrBlock := Some (Get d ''destination_cidr_block''),
               opts_VpcPeeringConnectionId := Some (Get d ''vpc_peering_connection_id'')\<rparr>)
      else
        Inl (Errorf ''An invalid target type specified: %s'' [ArgString setTarget]))"

text \<open>Lines 399 to 487 of \<open>resourceAwsRouteUpdate\<close>: the selected target and the payload.\<close>

definition update_payload :: "ResourceData \<Rightarrow> error + (string \<times> ReplaceRouteInput)" where
  "update_payload d =
     (case countTargets d update_allowedTargets (0, []) of
        (numTargets, setTarget) \<Rightarrow>
          if update_tooManyTargets d numTargets setTarget then Inl routeTargetValidationError
          else (case update_switch d setTarget of
                  Inl e \<Rightarrow> Inl e
                | Inr replaceOpts \<Rightarrow> Inr (setTarget, replaceOpts)))"

text \<open>
  The Target Selector of the spec is the part of each operation that ends with the
  selected field: the operation's outcome up to its payload, keeping the target.
\<close>

datatype operation = OpCreate | OpUpdate

fun allowedTargets :: "operation \<Rightarrow> string list" where
  "allowedTargets OpCreate = create_allowedTargets"
| "allowedTargets OpUpdate = update_allowedTargets"

fun selectTarget :: "operation \<Rightarrow> ResourceData \<Rightarrow> error + string" where
  "selectTarget OpCreate d = map_sum id fst (create_payload d)"
| "selectTarget OpUpdate d = map_sum id fst (update_payload d)"

text \<open>The error of create's \<open>default\<close> branch, which lists the allowed field names.\<close>

definition missingTargetError :: "string list \<Rightarrow> error" where
  "missingTargetError names =
     Errorf ''A valid target type is missing. Specify one of the following attributes: %s''
       [ArgString (strings_Join names '', '')]"

text \<open>The fields of a list that hold a non-empty string.\<close>

definition nonEmptyTargets :: "ResourceData \<Rightarrow> string list \<Rightarrow> string list" where
  "nonEmptyTargets d names = filter (\<lambda>t. Get d t \<noteq> []) names"

section \<open>The remote routing API\<close>

text \<open>
  The EC2 client is a state machine over a remote world \<open>'w\<close>: each operation takes its
  input and the world and gives its answer and the next world. The connection state
  \<open>Conn\<close> pairs the world with the trace of the calls made so far and their answers, so
  that a theorem can count the calls of an operation.
\<close>

record 'w EC2 =
  CreateRoute :: "CreateRouteInput \<Rightarrow> 'w \<Rightarrow> error option \<times> 'w"
  ReplaceRoute :: "ReplaceRouteInput \<Rightarrow> 'w \<Rightarrow> error option \<times> 'w"
  DeleteRoute :: "DeleteRouteInput \<Rightarrow> 'w \<Rightarrow> error option \<times> 'w"
  DescribeRouteTables :: "string list \<Rightarrow> 'w \<Rightarrow> (error + RouteTable option list) \<times> 'w"

datatype event =
    CallCreateRoute CreateRouteInput "error option"
  | CallReplaceRoute ReplaceRouteInput "error option"
  | CallDeleteRoute DeleteRouteInput "error option"
  | CallDescribeRouteTables "string list" "error + RouteTable option list"

record 'w Conn =
  world :: 'w
  trace :: "event list"

definition conn_CreateRoute ::
  "'w EC2 \<Rightarrow> CreateRouteInput \<Rightarrow> 'w Conn \<Rightarrow> error option \<times> 'w Conn" where
  "conn_CreateRoute conn opts s =
     (case CreateRoute conn opts (world s) of
        (err, w) \<Rightarrow> (err, \<lparr>world = w, trace = trace s @ [CallCreateRoute opts err]\<rparr>))"

definition conn_ReplaceRoute ::
  "'w EC2 \<Rightarrow> ReplaceRouteInput \<Rightarrow> 'w Conn \<Rightarrow> error option \<times> 'w Conn" where
  "conn_ReplaceRoute conn opts s =
     (case ReplaceRoute conn opts (world s) of
        (err, w) \<Rightarrow> (err, \<lparr>world = w, trace = trace s @ [CallReplaceRoute opts err]\<rparr>))"

definition conn_DeleteRoute ::
  "'w EC2 \<Rightarrow> DeleteRouteInput \<Rightarrow> 'w Conn \<Rightarrow> error option \<times> 'w Conn" where
  "conn_DeleteRoute conn opts s =
     (case DeleteRoute conn opts (world s) of
        (err, w) \<Rightarrow> (err, \<lparr>world = w, trace = trace s @ [CallDeleteRoute opts err]\<rparr>))"

definition conn_DescribeRouteTables ::
  "'w EC2 \<Rightarrow> string list \<Rightarrow> 'w Conn \<Rightarrow> (error + RouteTable option list) \<times> 'w Conn" where
  "conn_DescribeRouteTables conn ids s =
     (case DescribeRouteTables conn ids (world s) of
        (resp, w) \<Rightarrow> (resp, \<lparr>world = w, trace = trace s @ [CallDescribeRouteTables ids resp]\<rparr>))"

section \<open>The convergence loop\<close>

text \<open>
  \<open>resource.RetryError\<close> of the plugin SDK, as the function literals of the source file
  build it: \<open>resource.RetryableError\<close> and \<open>resource.NonRetryableError\<close> wrap an error,
  and the literal returns \<open>nil\<close> for success.
\<close>

datatype RetryError = Retryable error | NonRetryable error

definition resource_RetryableError :: "error option \<Rightarrow> RetryError option" where
  "resource_RetryableError err = map_option Retryable err"

definition resource_NonRetryableError :: "error option \<Rightarrow> RetryError option" where
  "resource_NonRetryableError err = map_option NonRetryable err"

text \<open>
  Modelled from the spec: \<open>resource.Retry\<close> belongs to the plugin SDK and is not in the
  source file. Spec section 4.4: the operation performs one attempt and classifies it as
  success, retryable failure or fatal failure; the loop repeats it while it is retryable and
  the timeout has not elapsed, returns \<open>nil\<close> on success and the error of a fatal failure
  at once, and on timeout surfaces the last observed error wrapped in a timeout error.
  Wall-clock time is not modelled: the budget is the number of attempts the timeout leaves
  room for, and \<open>lastError\<close> is the error of the last retryable failure.
\<close>

fun Retry_loop ::
  "nat \<Rightarrow> ('s \<Rightarrow> RetryError option \<times> 's) \<Rightarrow> error option \<Rightarrow> 's \<Rightarrow> error option \<times> 's" where
  "Retry_loop 0 f lastError s = (Some (TimeoutError lastError), s)"
| "Retry_loop (Suc budget) f lastError s =
     (case f s of
        (None, s') \<Rightarrow> (None, s')
      | (Some (NonRetryable e), s') \<Rightarrow> (Some e, s')
      | (Some (Retryable e), s') \<Rightarrow> Retry_loop budget f (Some e) s')"

text \<open>Modelled from the spec: \<open>resource.Retry\<close> itself, the loop started with no last
  error.\<close>

definition Retry :: "nat \<Rightarrow> ('s \<Rightarrow> RetryError option \<times> 's) \<Rightarrow> 's \<Rightarrow> error option \<times> 's" where
  "Retry budget f s = Retry_loop budget f None s"

section \<open>Identity\<close>

text \<open>
  Modelled from the spec: \<open>hashcode.String\<close> is a package of the provider that is not in
  the source file. The spec fixes an unsigned 32-bit non-cryptographic hash of the
  destination string and leaves the algorithm open, so the 32-bit checksum is a parameter.
\<close>

definition hashcode_String :: "(string \<Rightarrow> 32 word) \<Rightarrow> string \<Rightarrow> int" where
  "hashcode_String crc32 s = uint (crc32 s)"

text \<open>
  \<open>resourceAwsRouteID\<close>. The route is a pointer and so are its fields: \<open>None\<close> as the
  result is the nil-pointer panic of \<open>r.DestinationIpv6CidrBlock\<close> on a nil route and of
  \<open>*r.DestinationCidrBlock\<close> on a nil field.
\<close>

definition resourceAwsRouteID ::
  "(string \<Rightarrow> 32 word) \<Rightarrow> ResourceData \<Rightarrow> Route option \<Rightarrow> string option" where
  "resourceAwsRouteID crc32 d r =
     (case r of
        None \<Rightarrow> None
      | Some route \<Rightarrow>
          if DestinationIpv6CidrBlock route \<noteq> None \<and> the (DestinationIpv6CidrBlock route) \<noteq> []
          then Some (''r-'' @ Get d ''route_table_id'' @
                     Sprintf_d (hashcode_String crc32 (the (DestinationIpv6CidrBlock route))))
          else (case DestinationCidrBlock route of
                  None \<Rightarrow> None
                | Some cidr \<Rightarrow>
                    Some (''r-'' @ Get d ''route_table_id'' @
                          Sprintf_d (hashcode_String crc32 cidr))))"

text \<open>The importer's \<open>State\<close> function (lines 31 to 46).\<close>

definition importState :: "(string \<Rightarrow> 32 word) \<Rightarrow> ResourceData \<Rightarrow> error + ResourceData" where
  "importState crc32 d =
     (let idParts = strings_Split (ID d) (CHR ''_'') in
      if length idParts \<noteq> 2 \<or> idParts ! 0 = [] \<or> idParts ! 1 = [] then
        Inl (Errorf ''unexpected format of ID (%q), expected ROUTETABLEID_DESTINATION''
               [ArgString (ID d)])
      else
        let routeTableID = idParts ! 0;
            destination = idParts ! 1;
            d1 = Set_attr d ''route_table_id'' (Some routeTableID);
            d2 = (if strings_Contains destination '':''
                  then Set_attr d1 ''destination_ipv6_cidr_block'' (Some destination)
                  else Set_attr d1 ''destination_cidr_block'' (Some destination))
        in Inr (SetId d2 (''r-'' @ routeTableID @ Sprintf_d (hashcode_String crc32 destination))))"

section \<open>Route Locator\<close>

text \<open>The two \<open>for _, route := range ...Routes\<close> loops of \<open>resourceAwsRouteFindRoute\<close>.
  \<open>cidrBlocksEqual\<close> is a helper of the provider that is not in the source file; it is a
  parameter of the locator.\<close>

fun findByCidr :: "string \<Rightarrow> Route list \<Rightarrow> Route option" where
  "findByCidr cidr [] = None"
| "findByCidr cidr (route # rest) =
     (if DestinationCidrBlock route \<noteq> None \<and> the (DestinationCidrBlock route) = cidr
      then Some route else findByCidr cidr rest)"

fun findByIpv6Cidr :: "(string \<Rightarrow> string \<Rightarrow> bool) \<Rightarrow> string \<Rightarrow> Route list \<Rightarrow> Route option" where
  "findByIpv6Cidr cidrBlocksEqual ipv6cidr [] = None"
| "findByIpv6Cidr cidrBlocksEqual ipv6cidr (route # rest) =
     (if cidrBlocksEqual (aws_StringValue (DestinationIpv6CidrBlock route)) ipv6cidr
      then Some route else findByIpv6Cidr cidrBlocksEqual ipv6cidr rest)"

text \<open>
  \<open>resourceAwsRouteFindRoute\<close>: Go's \<open>(route, err)\<close> is \<open>Inl err\<close> for \<open>(nil, err)\<close>,
  \<open>Inr None\<close> for \<open>(nil, nil)\<close> and \<open>Inr (Some route)\<close> for \<open>(route, nil)\<close>.
\<close>

definition resourceAwsRouteFindRoute ::
  "'w EC2 \<Rightarrow> (string \<Rightarrow> string \<Rightarrow> bool) \<Rightarrow> string \<Rightarrow> string \<Rightarrow> string \<Rightarrow> 'w Conn \<Rightarrow>
   (error + Route option) \<times> 'w Conn" where
  "resourceAwsRouteFindRoute conn cidrBlocksEqual rtbid cidr ipv6cidr s =
     (case conn_DescribeRouteTables conn [rtbid] s of
        (Inl err, s') \<Rightarrow> (Inl err, s')
      | (Inr RouteTables, s') \<Rightarrow>
          (case RouteTables of
             [] \<Rightarrow> (Inr None, s')
           | None # others \<Rightarrow> (Inr None, s')
           | Some table # others \<Rightarrow>
               if cidr \<noteq> [] then (Inr (findByCidr cidr (Routes table)), s')
               else if ipv6cidr \<noteq> [] then
                 (Inr (findByIpv6Cidr cidrBlocksEqual ipv6cidr (Routes table)), s')
               else (Inr None, s')))"

section \<open>Read\<close>

text \<open>The fourteen \<open>d.Set\<close> calls of \<open>resourceAwsRouteRead\<close> (lines 379 to 392).\<close>

definition read_setAll :: "ResourceData \<Rightarrow> Route \<Rightarrow> ResourceData" where
  "read_setAll d route =
     (let d1 = Set_attr d ''destination_cidr_block'' (DestinationCidrBlock route);
          d2 = Set_attr d1 ''destination_ipv6_cidr_block'' (DestinationIpv6CidrBlock route);
          d3 = Set_attr d2 ''destination_prefix_list_id'' (DestinationPrefixListId route);
          d4 = Set_attr d3 ''gateway_id'' (GatewayId route);
          d5 = Set_attr d4 ''egress_only_gateway_id'' (EgressOnlyInternetGatewayId route);
          d6 = Set_attr d5 ''nat_gateway_id'' (NatGatewayId route);
          d7 = Set_attr d6 ''local_gateway_id'' (LocalGatewayId route);
          d8 = Set_attr d7 ''instance_id'' (InstanceId route);
          d9 = Set_attr d8 ''instance_owner_id'' (InstanceOwnerId route);
          d10 = Set_attr d9 ''network_interface_id'' (NetworkInterfaceId route);
          d11 = Set_attr d10 ''origin'' (Origin route);
          d12 = Set_attr d11 ''state'' (State route);
          d13 = Set_attr d12 ''transit_gateway_id'' (TransitGatewayId route)
      in Set_attr d13 ''vpc_peering_connection_id'' (VpcPeeringConnectionId route))"

text \<open>\<open>resourceAwsRouteRead\<close>: the returned error and the resource data as it leaves it.\<close>

definition resourceAwsRouteRead ::
  "'w EC2 \<Rightarrow> (string \<Rightarrow> string \<Rightarrow> bool) \<Rightarrow> ResourceData \<Rightarrow> 'w Conn \<Rightarrow>
   (error option \<times> ResourceData) \<times> 'w Conn" where
  "resourceAwsRouteRead conn cidrBlocksEqual d s =
     (let routeTableId = Get d ''route_table_id'';
          destinationCidrBlock = Get d ''destination_cidr_block'';
          destinationIpv6CidrBlock = Get d ''destination_ipv6_cidr_block''
      in case resourceAwsRouteFindRoute conn cidrBlocksEqual routeTableId destinationCidrBlock
                destinationIpv6CidrBlock s of
           (Inl err, s') \<Rightarrow>
             if isAWSErr (Some err) ''InvalidRouteTableID.NotFound'' [] then ((None, SetId d []), s')
             else ((Some err, d), s')
         | (Inr None, s') \<Rightarrow> ((None, SetId d []), s')
         | (Inr (Some route), s') \<Rightarrow> ((None, read_setAll d route), s'))"

section \<open>Create\<close>

text \<open>The function literal of the first \<open>resource.Retry\<close> of create (lines 277 to 293).\<close>

definition create_attempt ::
  "'w EC2 \<Rightarrow> CreateRouteInput \<Rightarrow> 'w Conn \<Rightarrow> RetryError option \<times> 'w Conn" where
  "create_attempt conn createOpts s =
     (case conn_CreateRoute conn createOpts s of
        (err, s') \<Rightarrow>
          (if isAWSErr err ''InvalidParameterException'' [] then resource_RetryableError err
           else if isAWSErr err ''InvalidTransitGatewayID.NotFound'' [] then resource_RetryableError err
           else if err \<noteq> None then resource_NonRetryableError err
           else None, s'))"

text \<open>Lines 277 to 296: the retried create call and, on timeout, the direct call.\<close>

definition create_call ::
  "'w EC2 \<Rightarrow> nat \<Rightarrow> CreateRouteInput \<Rightarrow> 'w Conn \<Rightarrow> error option \<times> 'w Conn" where
  "create_call conn budget createOpts s =
     (case Retry budget (create_attempt conn createOpts) s of
        (err, s1) \<Rightarrow>
          if isResourceTimeoutError err then conn_CreateRoute conn createOpts s1
          else (err, s1))"

text \<open>
  The function literal of the confirmation lookups (lines 304 to 315 and 328 to 339). It
  assigns the variable \<open>route\<close> of create, which is part of the state it runs on.
\<close>

definition find_attempt ::
  "'w EC2 \<Rightarrow> (string \<Rightarrow> string \<Rightarrow> bool) \<Rightarrow> string \<Rightarrow> string \<Rightarrow> string \<Rightarrow>
   Route option \<times> 'w Conn \<Rightarrow> RetryError option \<times> (Route option \<times> 'w Conn)" where
  "find_attempt conn cidrBlocksEqual rtbid cidr ipv6cidr rs =
     (case resourceAwsRouteFindRoute conn cidrBlocksEqual rtbid cidr ipv6cidr (snd rs) of
        (Inr (Some route), s') \<Rightarrow> (None, (Some route, s'))
      | (Inr None, s') \<Rightarrow>
          (resource_RetryableError (Some (ErrorNew ''Route not found'')), (None, s'))
      | (Inl err, s') \<Rightarrow> (resource_RetryableError (Some err), (None, s')))"

text \<open>
  Lines 304 to 324 (and 328 to 348): the retried lookup, on timeout the direct lookup, and
  the two checks after it. \<open>Inl\<close> is the error create returns; \<open>Inr\<close> is the value of
  \<open>route\<close> with which create goes on. \<open>notFoundFormat\<close> is the format of the last message.
\<close>

definition find_confirm ::
  "'w EC2 \<Rightarrow> (string \<Rightarrow> string \<Rightarrow> bool) \<Rightarrow> nat \<Rightarrow> string \<Rightarrow> string \<Rightarrow> string \<Rightarrow> string \<Rightarrow>
   Route option \<times> 'w Conn \<Rightarrow> (error + Route option) \<times> 'w Conn" where
  "find_confirm conn cidrBlocksEqual budget notFoundFormat rtbid cidr ipv6cidr rs =
     (case Retry budget (find_attempt conn cidrBlocksEqual rtbid cidr ipv6cidr) rs of
        (err, (route, s1)) \<Rightarrow>
          (case (if isResourceTimeoutError err
                 then (case resourceAwsRouteFindRoute conn cidrBlocksEqual rtbid cidr ipv6cidr s1 of
                         (Inl e, s2) \<Rightarrow> (None, Some e, s2)
                       | (Inr found, s2) \<Rightarrow> (found, None, s2))
                 else (route, err, s1)) of
             (route', err', s2) \<Rightarrow>
               (case err' of
                  Some e \<Rightarrow>
                    (Inl (Errorf ''Error finding route after creating it: %s'' [ArgError e]), s2)
                | None \<Rightarrow>
                    (case route' of
                       None \<Rightarrow>
                         (Inl (Errorf notFoundFormat
                                 [ArgString rtbid, ArgString (if cidr \<noteq> [] then cidr else ipv6cidr)]),
                          s2)
                     | Some r \<Rightarrow> (Inr (Some r), s2)))))"

text \<open>
  \<open>resourceAwsRouteCreate\<close>. The three budgets are those of its three \<open>resource.Retry\<close>
  calls. The result is \<open>None\<close> when create panics in \<open>resourceAwsRouteID\<close>, and else the
  returned error with the resource data as create leaves it.
\<close>

definition resourceAwsRouteCreate ::
  "'w EC2 \<Rightarrow> (string \<Rightarrow> string \<Rightarrow> bool) \<Rightarrow> (string \<Rightarrow> 32 word) \<Rightarrow> nat \<Rightarrow> nat \<Rightarrow> nat \<Rightarrow>
   ResourceData \<Rightarrow> 'w Conn \<Rightarrow> (error option \<times> ResourceData) option \<times> 'w Conn" where
  "resourceAwsRouteCreate conn cidrBlocksEqual crc32 budget budget4 budget6 d s =
     (case create_payload d of
        Inl e \<Rightarrow> (Some (Some e, d), s)
      | Inr (setTarget, createOpts) \<Rightarrow>
          (case create_call conn budget createOpts s of
             (Some e, s1) \<Rightarrow> (Some (Some (Errorf ''Error creating route: %s'' [ArgError e]), d), s1)
           | (None, s1) \<Rightarrow>
               (case (case GetOk d ''destination_cidr_block'' of
                        (v, ok) \<Rightarrow>
                          if ok then
                            find_confirm conn cidrBlocksEqual budget4
                              ''Unable to find matching route for Route Table (%s) and destination CIDR block (%s).''
                              (Get d ''route_table_id'') v [] (None, s1)
                          else (Inr None, s1)) of
                  (Inl e, s2) \<Rightarrow> (Some (Some e, d), s2)
                | (Inr route, s2) \<Rightarrow>
                    (case (case GetOk d ''destination_ipv6_cidr_block'' of
                             (v, ok) \<Rightarrow>
                               if ok then
                                 find_confirm conn cidrBlocksEqual budget6
                                   ''Unable to find matching route for Route Table (%s) and destination IPv6 CIDR block (%s).''
                                   (Get d ''route_table_id'') [] v (route, s2)
                               else (Inr route, s2)) of
                       (Inl e, s3) \<Rightarrow> (Some (Some e, d), s3)
                     | (Inr route', s3) \<Rightarrow>
                         (case resourceAwsRouteID crc32 d route' of
                            None \<Rightarrow> (None, s3)
                          | Some newId \<Rightarrow>
                              (case resourceAwsRouteRead conn cidrBlocksEqual (SetId d newId) s3 of
                                 (r, s4) \<Rightarrow> (Some r, s4)))))))"

section \<open>Update\<close>

text \<open>\<open>resourceAwsRouteUpdate\<close>: the payload, then one \<open>ReplaceRoute\<close> call whose error is
  returned as it is.\<close>

definition resourceAwsRouteUpdate ::
  "'w EC2 \<Rightarrow> ResourceData \<Rightarrow> 'w Conn \<Rightarrow> error option \<times> 'w Conn" where
  "resourceAwsRouteUpdate conn d s =
     (case update_payload d of
        Inl e \<Rightarrow> (Some e, s)
      | Inr (setTarget, replaceOpts) \<Rightarrow> conn_ReplaceRoute conn replaceOpts s)"

section \<open>Delete\<close>

text \<open>Lines 498 to 506: the delete payload.\<close>

definition delete_opts :: "ResourceData \<Rightarrow> DeleteRouteInput" where
  "delete_opts d =
     (let deleteOpts = \<lparr>del_RouteTableId = Some (Get d ''route_table_id''),
                         del_DestinationCidrBlock = None,
                         del_DestinationIpv6CidrBlock = None\<rparr>;
          opts1 = (case GetOk d ''destination_cidr_block'' of
                     (v, ok) \<Rightarrow> if ok then deleteOpts\<lparr>del_DestinationCidrBlock := Some v\<rparr>
                                else deleteOpts)
      in (case GetOk d ''destination_ipv6_cidr_block'' of
            (v, ok) \<Rightarrow> if ok then opts1\<lparr>del_DestinationIpv6CidrBlock := Some v\<rparr>
                       else opts1))"

text \<open>The function literal of delete's \<open>resource.Retry\<close> (lines 509 to 526).\<close>

definition delete_attempt ::
  "'w EC2 \<Rightarrow> DeleteRouteInput \<Rightarrow> 'w Conn \<Rightarrow> RetryError option \<times> 'w Conn" where
  "delete_attempt conn deleteOpts s =
     (case conn_DeleteRoute conn deleteOpts s of
        (err, s') \<Rightarrow>
          (if err = None then None
           else if isAWSErr err ''InvalidRoute.NotFound'' [] then None
           else if isAWSErr err ''InvalidParameterException'' [] then resource_RetryableError err
           else resource_NonRetryableError err, s'))"

text \<open>\<open>resourceAwsRouteDelete\<close>.\<close>

definition resourceAwsRouteDelete ::
  "'w EC2 \<Rightarrow> nat \<Rightarrow> ResourceData \<Rightarrow> 'w Conn \<Rightarrow> error option \<times> 'w Conn" where
  "resourceAwsRouteDelete conn budget d s =
     (case Retry budget (delete_attempt conn (delete_opts d)) s of
        (err, s1) \<Rightarrow>
          (case (if isResourceTimeoutError err then conn_DeleteRoute conn (delete_opts d) s1
                 else (err, s1)) of
             (err', s2) \<Rightarrow>
               if isAWSErr err' ''InvalidRoute.NotFound'' [] then (None, s2)
               else (case err' of
                       Some e \<Rightarrow> (Some (Errorf ''Error deleting route: %s'' [ArgError e]), s2)
                     | None \<Rightarrow> (None, s2))))"

section \<open>Observations of an execution\<close>

text \<open>
  The events an operation adds to the trace, and the reading of the spec's words
  "the retry budget elapses without a success or fatal failure": each of the attempts the
  budget leaves room for ends in a retryable failure.
\<close>

definition newEvents :: "'w Conn \<Rightarrow> 'w Conn \<Rightarrow> event list" where
  "newEvents s s' = drop (length (trace s)) (trace s')"

fun budgetElapses :: "nat \<Rightarrow> ('s \<Rightarrow> RetryError option \<times> 's) \<Rightarrow> 's \<Rightarrow> bool" where
  "budgetElapses 0 f s = True"
| "budgetElapses (Suc budget) f s =
     (case f s of
        (Some (Retryable e), s') \<Rightarrow> budgetElapses budget f s'
      | (Some (NonRetryable e), s') \<Rightarrow> False
      | (None, s') \<Rightarrow> False)"

text \<open>The attributes that read overwrites, each with the field of the remote route it is
  set from (the fourteen \<open>d.Set\<close> calls, in the source's order).\<close>

definition observedFields :: "(string \<times> (Route \<Rightarrow> string option)) list" where
  "observedFields =
     [(''destination_cidr_block'', DestinationCidrBlock),
      (''destination_ipv6_cidr_block'', DestinationIpv6CidrBlock),
      (''destination_prefix_list_id'', DestinationPrefixListId),
      (''gateway_id'', GatewayId),
      (''egress_only_gateway_id'', EgressOnlyInternetGatewayId),
      (''nat_gateway_id'', NatGatewayId),
      (''local_gateway_id'', LocalGatewayId),
      (''instance_id'', InstanceId),
      (''instance_owner_id'', InstanceOwnerId),
      (''network_interface_id'', NetworkInterfaceId),
      (''origin'', Origin),
      (''state'', State),
      (''transit_gateway_id'', TransitGatewayId),
      (''vpc_peering_connection_id'', VpcPeeringConnectionId)]"

section \<open>CIDR equality of the spec\<close>

text \<open>
  Modelled from the spec: \<open>cidrBlocksEqual\<close> is a helper of the provider that is not in
  the source file. Spec section 4.3 asks for CIDR-block semantic equality that tolerates
  zero-padding and expansion differences. Here two texts are equal when both parse as an
  IPv6 address (eight groups of one to four hexadecimal digits, \<open>::\<close> standing once for
  a run of zero groups), a slash and a decimal prefix length of at most 128, and they give
  the same groups and the same length. The theorems about the locator hold for every
  helper; this one is used for the concrete examples.
\<close>

definition hexDigit :: "char \<Rightarrow> nat option" where
  "hexDigit c =
     (let n = (of_char c :: nat) in
      if 48 \<le> n \<and> n \<le> 57 then Some (n - 48)
      else if 97 \<le> n \<and> n \<le> 102 then Some (n - 87)
      else if 65 \<le> n \<and> n \<le> 70 then Some (n - 55)
      else None)"

fun parseHex :: "string \<Rightarrow> nat \<Rightarrow> nat option" where
  "parseHex [] acc = Some acc"
| "parseHex (c # cs) acc =
     (case hexDigit c of None \<Rightarrow> None | Some v \<Rightarrow> parseHex cs (16 * acc + v))"

fun parseDecimal :: "string \<Rightarrow> nat \<Rightarrow> nat option" where
  "parseDecimal [] acc = Some acc"
| "parseDecimal (c # cs) acc =
     (let n = (of_char c :: nat) in
      if 48 \<le> n \<and> n \<le> 57 then parseDecimal cs (10 * acc + (n - 48)) else None)"

definition parseGroup :: "string \<Rightarrow> nat option" where
  "parseGroup g = (if g = [] \<or> length g > 4 then None else parseHex g 0)"

fun parseGroups :: "string list \<Rightarrow> nat list option" where
  "parseGroups [] = Some []"
| "parseGroups (g # gs) =
     (case parseGroup g of
        None \<Rightarrow> None
      | Some v \<Rightarrow> (case parseGroups gs of None \<Rightarrow> None | Some vs \<Rightarrow> Some (v # vs)))"

definition groupsOf :: "string \<Rightarrow> nat list option" where
  "groupsOf s = (if s = [] then Some [] else parseGroups (strings_Split s (CHR '':'')))"

fun splitEllipsis :: "string \<Rightarrow> (string \<times> string) option" where
  "splitEllipsis (a # b # cs) =
     (if a = CHR '':'' \<and> b = CHR '':'' then Some ([], cs)
      else (case splitEllipsis (b # cs) of
              None \<Rightarrow> None
            | Some (l, r) \<Rightarrow> Some (a # l, r)))"
| "splitEllipsis cs = None"

definition parseIPv6 :: "string \<Rightarrow> nat list option" where
  "parseIPv6 s =
     (case splitEllipsis s of
        None \<Rightarrow>
          (case groupsOf s of
             None \<Rightarrow> None
           | Some gs \<Rightarrow> if length gs = 8 then Some gs else None)
      | Some (l, r) \<Rightarrow>
          (case groupsOf l of
             None \<Rightarrow> None
           | Some gl \<Rightarrow>
               (case groupsOf r of
                  None \<Rightarrow> None
                | Some gr \<Rightarrow>
                    if length gl + length gr < 8
                    then Some (gl @ replicate (8 - (length gl + length gr)) 0 @ gr)
                    else None)))"

definition parseCIDR :: "string \<Rightarrow> (nat list \<times> nat) option" where
  "parseCIDR s =
     (case strings_Split s (CHR ''/'') of
        [addr, len] \<Rightarrow>
          (case parseIPv6 addr of
             None \<Rightarrow> None
           | Some groups \<Rightarrow>
               (if len = [] then None
                else (case parseDecimal len 0 of
                        None \<Rightarrow> None
                      | Some n \<Rightarrow> if n \<le> 128 then Some (groups, n) else None)))
      | _ \<Rightarrow> None)"

text \<open>Modelled from the spec: the CIDR-block semantic equality of section 4.3, as equality
  of the parsed blocks; a text that does not parse equals nothing.\<close>

definition specCidrBlocksEqual :: "string \<Rightarrow> string \<Rightarrow> bool" where
  "specCidrBlocksEqual cidr1 cidr2 =
     (case parseCIDR cidr1 of
        None \<Rightarrow> False
      | Some c1 \<Rightarrow> (case parseCIDR cidr2 of None \<Rightarrow> False | Some c2 \<Rightarrow> c1 = c2))"

section \<open>A scripted remote and example records\<close>

text \<open>
  A remote whose world is a script: each operation answers with the next entry of its
  queue, and with success (for a describe call: no table) once the queue is empty.
\<close>

record Script =
  createAnswers :: "error option list"
  replaceAnswers :: "error option list"
  deleteAnswers :: "error option list"
  describeAnswers :: "(error + RouteTable option list) list"

definition scripted :: "Script EC2" where
  "scripted =
     \<lparr>CreateRoute = (\<lambda>opts w. case createAnswers w of
                        [] \<Rightarrow> (None, w)
                      | a # as \<Rightarrow> (a, w\<lparr>createAnswers := as\<rparr>)),
      ReplaceRoute = (\<lambda>opts w. case replaceAnswers w of
                        [] \<Rightarrow> (None, w)
                      | a # as \<Rightarrow> (a, w\<lparr>replaceAnswers := as\<rparr>)),
      DeleteRoute = (\<lambda>opts w. case deleteAnswers w of
                        [] \<Rightarrow> (None, w)
                      | a # as \<Rightarrow> (a, w\<lparr>deleteAnswers := as\<rparr>)),
      DescribeRouteTables = (\<lambda>ids w. case describeAnswers w of
                        [] \<Rightarrow> (Inr [], w)
                      | a # as \<Rightarrow> (a, w\<lparr>describeAnswers := as\<rparr>))\<rparr>"

definition script :: "error option list \<Rightarrow> error option list \<Rightarrow> error option list \<Rightarrow>
    (error + RouteTable option list) list \<Rightarrow> Script Conn" where
  "script cs rs ds qs =
     \<lparr>world = \<lparr>createAnswers = cs, replaceAnswers = rs, deleteAnswers = ds, describeAnswers = qs\<rparr>,
      trace = []\<rparr>"

text \<open>Resource data from a list of attribute values; every other attribute is unset.\<close>

definition resourceData :: "(string \<times> string) list \<Rightarrow> ResourceData" where
  "resourceData kvs =
     \<lparr>ID = [], attrs = (\<lambda>key. case map_of kvs key of None \<Rightarrow> [] | Some v \<Rightarrow> v)\<rparr>"

definition emptyRoute :: Route where
  "emptyRoute =
     \<lparr>DestinationCidrBlock = None, DestinationIpv6CidrBlock = None,
      DestinationPrefixListId = None, GatewayId = None, EgressOnlyInternetGatewayId = None,
      NatGatewayId = None, LocalGatewayId = None, InstanceId = None, InstanceOwnerId = None,
      NetworkInterfaceId = None, Origin = None, State = None, TransitGatewayId = None,
      VpcPeeringConnectionId = None\<rparr>"

text \<open>A route table with an IPv4 route and an IPv6 route written in expanded form.\<close>

definition exTable :: RouteTable where
  "exTable =
     \<lparr>Routes =
        [emptyRoute\<lparr>DestinationCidrBlock := Some ''10.0.0.0/16'', GatewayId := Some ''igw-1''\<rparr>,
         emptyRoute\<lparr>DestinationIpv6CidrBlock := Some ''0:0:0:0:0:0:0:1/128'',
                     EgressOnlyInternetGatewayId := Some ''eigw-1''\<rparr>]\<rparr>"

text \<open>Resource data as recorded after a create: identity, table, IPv4 destination, target.\<close>

definition exRecorded :: ResourceData where
  "exRecorded =
     SetId (resourceData [(''route_table_id'', ''rtb-1''),
                          (''destination_cidr_block'', ''10.0.0.0/16''),
                          (''gateway_id'', ''igw-0'')]) ''r-rtb-111''"

text \<open>Resource data with an identity and a table and no destination.\<close>

definition exNoDestination :: ResourceData where
  "exNoDestination = SetId (resourceData [(''route_table_id'', ''rtb-1'')]) ''r-rtb-10''"

text \<open>The worlds the examples end in: every queue used up.\<close>

definition scriptDone :: Script where
  "scriptDone =
     \<lparr>createAnswers = [], replaceAnswers = [], deleteAnswers = [], describeAnswers = []\<rparr>"

text \<open>The create payload of the recorded route of the examples.\<close>

definition exCreateOpts :: CreateRouteInput where
  "exCreateOpts =
     emptyRouteInput\<lparr>opts_RouteTableId := Some ''rtb-1'',
                      opts_DestinationCidrBlock := Some ''10.0.0.0/16'',
                      opts_GatewayId := Some ''igw-0''\<rparr>"

text \<open>A route with an IPv6 destination and a gateway target.\<close>

definition exIpv6Gateway :: ResourceData where
  "exIpv6Gateway =
     resourceData [(''route_table_id'', ''rtb-1''),
                   (''destination_ipv6_cidr_block'', ''2001:db8::/32''),
                   (''gateway_id'', ''igw-1'')]"

text \<open>A toy checksum for the examples: the length of the string.\<close>

definition lengthChecksum :: "string \<Rightarrow> 32 word" where
  "lengthChecksum s = word_of_nat (length s)"

section \<open>Helper lemmas\<close>

text \<open>Facts about the string helpers, the error tests and the trace that several sections use.\<close>

lemma strings_Contains_empty: "strings_Contains s []"
  by (induction s) (auto simp: strings_HasPrefix_def)

lemma isAWSErr_code:
  "isAWSErr (Some (AWSError c m)) code [] = (c = code)"
  by (simp add: isAWSErr_def strings_Contains_empty)

lemma isAWSErr_None: "isAWSErr None code message = False"
  by (simp add: isAWSErr_def)

lemma isAWSErr_iff: "isAWSErr err code [] = (\<exists>m. err = Some (AWSError code m))"
  by (cases err; cases "the err") (auto simp: isAWSErr_def strings_Contains_empty)

lemma conn_DeleteRoute_trace:
  "conn_DeleteRoute conn opts s = (err, s') \<Longrightarrow> trace s' = trace s @ [CallDeleteRoute opts err]"
  by (auto simp: conn_DeleteRoute_def split: prod.splits)

lemma conn_CreateRoute_trace:
  "conn_CreateRoute conn opts s = (err, s') \<Longrightarrow> trace s' = trace s @ [CallCreateRoute opts err]"
  by (auto simp: conn_CreateRoute_def split: prod.splits)

lemma conn_ReplaceRoute_trace:
  "conn_ReplaceRoute conn opts s = (err, s') \<Longrightarrow> trace s' = trace s @ [CallReplaceRoute opts err]"
  by (auto simp: conn_ReplaceRoute_def split: prod.splits)

lemma conn_DescribeRouteTables_trace:
  "conn_DescribeRouteTables conn ids s = (resp, s') \<Longrightarrow>
   trace s' = trace s @ [CallDescribeRouteTables ids resp]"
  by (auto simp: conn_DescribeRouteTables_def split: prod.splits)

lemma trace_script: "trace (script cs rs ds qs) = []"
  by (simp add: script_def)

lemma describe_scripted:
  "conn_DescribeRouteTables scripted ids (script [] [] [] [a])
     = (a, \<lparr>world = scriptDone, trace = [CallDescribeRouteTables ids a]\<rparr>)"
  by (simp add: conn_DescribeRouteTables_def scripted_def script_def scriptDone_def)

lemma exRecorded_Get:
  "Get exRecorded ''route_table_id'' = ''rtb-1''"
  "Get exRecorded ''destination_cidr_block'' = ''10.0.0.0/16''"
  "Get exRecorded ''destination_ipv6_cidr_block'' = []"
  "Get exRecorded ''gateway_id'' = ''igw-0''"
  "ID exRecorded = ''r-rtb-111''"
  by (simp_all add: exRecorded_def Get_def SetId_def resourceData_def)

lemma exNoDestination_Get:
  "Get exNoDestination ''route_table_id'' = ''rtb-1''"
  "Get exNoDestination ''destination_cidr_block'' = []"
  "Get exNoDestination ''destination_ipv6_cidr_block'' = []"
  by (simp_all add: exNoDestination_def Get_def SetId_def resourceData_def)

lemmas scripted_eval =
  conn_CreateRoute_def conn_DeleteRoute_def conn_DescribeRouteTables_def conn_ReplaceRoute_def
  scripted_def script_def scriptDone_def isAWSErr_code isAWSErr_None
  resource_RetryableError_def resource_NonRetryableError_def isResourceTimeoutError_def

section \<open>Target Selector\<close>

text \<open>The loop counts the non-empty fields and keeps the last of them.\<close>

lemma countTargets_filter:
  "countTargets d ts (n, s) =
     (n + length (nonEmptyTargets d ts),
      if nonEmptyTargets d ts = [] then s else last (nonEmptyTargets d ts))"
  by (induction ts arbitrary: n s) (auto simp: nonEmptyTargets_def)

lemma nonEmptyTargets_by_set:
  "nonEmptyTargets d ts = filter (\<lambda>t. t \<in> set (nonEmptyTargets d ts)) ts"
  unfolding nonEmptyTargets_def by (rule filter_cong) auto

lemma nonEmptyTargets_subset: "set (nonEmptyTargets d ts) \<subseteq> set ts"
  by (auto simp: nonEmptyTargets_def)

lemma nonEmptyTargets_distinct: "distinct ts \<Longrightarrow> distinct (nonEmptyTargets d ts)"
  by (simp add: nonEmptyTargets_def)

lemma create_switch_allowed:
  "t \<in> set create_allowedTargets \<Longrightarrow> \<exists>opts. create_switch d t = Inr opts"
  unfolding create_allowedTargets_def create_switch_def by auto

lemma update_switch_allowed:
  "t \<in> set update_allowedTargets \<Longrightarrow> \<exists>opts. update_switch d t = Inr opts"
  unfolding update_allowedTargets_def update_switch_def by auto

lemma create_switch_none:
  "create_switch d [] = Inl (missingTargetError create_allowedTargets)"
  by (simp add: create_switch_def missingTargetError_def)

lemma update_switch_none:
  "update_switch d [] = Inl (Errorf ''An invalid target type specified: %s'' [ArgString []])"
  by (simp add: update_switch_def)

lemma create_select_many:
  "2 \<le> length (nonEmptyTargets d create_allowedTargets) \<Longrightarrow>
   selectTarget OpCreate d = Inl routeTargetValidationError"
  by (simp add: create_payload_def countTargets_filter)

lemma create_select_none:
  "nonEmptyTargets d create_allowedTargets = [] \<Longrightarrow>
   selectTarget OpCreate d = Inl (missingTargetError create_allowedTargets)"
  by (simp add: create_payload_def countTargets_filter create_switch_none)

lemma create_select_one:
  assumes "nonEmptyTargets d create_allowedTargets = [t]"
  shows "selectTarget OpCreate d = Inr t"
proof -
  have "t \<in> set create_allowedTargets"
    using nonEmptyTargets_subset [of d create_allowedTargets] assms by simp
  then obtain opts where "create_switch d t = Inr opts"
    using create_switch_allowed by blast
  then show ?thesis
    using assms by (simp add: create_payload_def countTargets_filter)
qed

lemma update_select_none:
  "nonEmptyTargets d update_allowedTargets = [] \<Longrightarrow>
   selectTarget OpUpdate d = Inl (Errorf ''An invalid target type specified: %s'' [ArgString []])"
  by (simp add: update_payload_def countTargets_filter update_switch_none
      update_tooManyTargets_def)

lemma update_select_one:
  assumes "nonEmptyTargets d update_allowedTargets = [t]"
  shows "selectTarget OpUpdate d = Inr t"
proof -
  have "t \<in> set update_allowedTargets"
    using nonEmptyTargets_subset [of d update_allowedTargets] assms by simp
  then obtain opts where "update_switch d t = Inr opts"
    using update_switch_allowed by blast
  then show ?thesis
    using assms by (simp add: update_payload_def countTargets_filter update_tooManyTargets_def)
qed

lemma update_exception_list:
  assumes "set (nonEmptyTargets d update_allowedTargets) = {''instance_id'', ''network_interface_id''}"
  shows "nonEmptyTargets d update_allowedTargets = [''network_interface_id'', ''instance_id'']"
proof -
  have "nonEmptyTargets d update_allowedTargets =
        filter (\<lambda>t. t \<in> {''instance_id'', ''network_interface_id''}) update_allowedTargets"
    using nonEmptyTargets_by_set [of d update_allowedTargets] assms by simp
  also have "\<dots> = [''network_interface_id'', ''instance_id'']"
    by (simp add: update_allowedTargets_def)
  finally show ?thesis .
qed

lemma update_select_exception:
  assumes "set (nonEmptyTargets d update_allowedTargets) = {''instance_id'', ''network_interface_id''}"
  shows "selectTarget OpUpdate d = Inr ''instance_id''"
proof -
  have l: "nonEmptyTargets d update_allowedTargets = [''network_interface_id'', ''instance_id'']"
    using assms by (rule update_exception_list)
  then have "''network_interface_id'' \<in> set (nonEmptyTargets d update_allowedTargets)" by simp
  then have ne: "Get d ''network_interface_id'' \<noteq> []"
    by (simp add: nonEmptyTargets_def)
  obtain opts where "update_switch d ''instance_id'' = Inr opts"
    using update_switch_allowed [of "''instance_id''" d] by (auto simp: update_allowedTargets_def)
  then show ?thesis
    using l ne by (simp add: update_payload_def countTargets_filter update_tooManyTargets_def)
qed

lemma update_select_many:
  assumes two: "2 \<le> length (nonEmptyTargets d update_allowedTargets)"
    and nex: "set (nonEmptyTargets d update_allowedTargets) \<noteq> {''instance_id'', ''network_interface_id''}"
  shows "selectTarget OpUpdate d = Inl routeTargetValidationError"
proof -
  let ?ne = "nonEmptyTargets d update_allowedTargets"
  have nonempty: "?ne \<noteq> []" using two by auto
  have dist: "distinct ?ne"
    by (rule nonEmptyTargets_distinct) (simp add: update_allowedTargets_def)
  have "update_tooManyTargets d (length ?ne) (last ?ne)"
  proof (cases "last ?ne = ''instance_id''")
    case False
    then show ?thesis using two by (simp add: update_tooManyTargets_def)
  next
    case True
    show ?thesis
    proof (cases "length ?ne = 2")
      case False
      then show ?thesis using two True by (simp add: update_tooManyTargets_def)
    next
      case len: True
      then obtain x y where xy: "?ne = [x, y]"
        by (metis (no_types) length_0_conv length_Suc_conv numeral_2_eq_2)
      with True have y: "y = ''instance_id''" by simp
      from dist xy y have xne: "x \<noteq> ''instance_id''" by auto
      have "Get d ''network_interface_id'' = []"
      proof (rule ccontr)
        assume a: "Get d ''network_interface_id'' \<noteq> []"
        then have "''network_interface_id'' \<in> set ?ne"
          by (simp add: nonEmptyTargets_def update_allowedTargets_def)
        with xy y have "x = ''network_interface_id''" by auto
        with xy y have "set ?ne = {''instance_id'', ''network_interface_id''}" by auto
        with nex show False by simp
      qed
      then show ?thesis using True len by (simp add: update_tooManyTargets_def)
    qed
  qed
  then show ?thesis
    using nonempty by (simp add: update_payload_def countTargets_filter)
qed

text \<open>
  Claim C1, amended. For create and for update, over the operation's list of allowed
  target fields: with two or more non-empty fields the selector fails with
  \<open>routeTargetValidationError\<close> (the ambiguous-target error), unless the operation is update
  and the non-empty fields are exactly \<open>instance_id\<close> and \<open>network_interface_id\<close>, in which
  case it succeeds with \<open>instance_id\<close>; with exactly one non-empty field it succeeds with
  that field; with none it fails, under create with the missing-target error that lists the
  allowed field names, and under update with the error "An invalid target type specified: "
  followed by the empty target name, which lists no field.
\<close>

theorem selectTarget_outcomes:
  "(2 \<le> length (nonEmptyTargets d (allowedTargets op)) \<and>
    \<not> (op = OpUpdate \<and>
       set (nonEmptyTargets d (allowedTargets op)) = {''instance_id'', ''network_interface_id''})
    \<longrightarrow> selectTarget op d = Inl routeTargetValidationError) \<and>
   (op = OpUpdate \<and>
    set (nonEmptyTargets d (allowedTargets op)) = {''instance_id'', ''network_interface_id''}
    \<longrightarrow> selectTarget op d = Inr ''instance_id'') \<and>
   (nonEmptyTargets d (allowedTargets op) = []
    \<longrightarrow> selectTarget op d =
        Inl (case op of
               OpCreate \<Rightarrow> missingTargetError create_allowedTargets
             | OpUpdate \<Rightarrow> Errorf ''An invalid target type specified: %s'' [ArgString []])) \<and>
   (nonEmptyTargets d (allowedTargets op) = [t] \<longrightarrow> selectTarget op d = Inr t)"
proof (cases op)
  case OpCreate
  then show ?thesis
    using create_select_many [of d] create_select_none [of d] create_select_one [of d t]
    by simp
next
  case OpUpdate
  then show ?thesis
    using update_select_many [of d] update_select_none [of d] update_select_one [of d t]
      update_select_exception [of d]
    by simp
qed

text \<open>The theorem at five records: two targets under create, the instance exception under
  update, no target under create and under update, and one target under update.\<close>

theorem selectTarget_outcomes_witness:
  "selectTarget OpCreate
     (resourceData [(''gateway_id'', ''igw-1''), (''nat_gateway_id'', ''nat-1'')])
     = Inl routeTargetValidationError \<and>
   selectTarget OpUpdate
     (resourceData [(''instance_id'', ''i-1''), (''network_interface_id'', ''eni-1'')])
     = Inr ''instance_id'' \<and>
   selectTarget OpCreate (resourceData []) = Inl (missingTargetError create_allowedTargets) \<and>
   selectTarget OpUpdate (resourceData [])
     = Inl (Errorf ''An invalid target type specified: %s'' [ArgString []]) \<and>
   selectTarget OpUpdate (resourceData [(''nat_gateway_id'', ''nat-1'')]) = Inr ''nat_gateway_id''"
proof -
  have a: "nonEmptyTargets (resourceData [(''gateway_id'', ''igw-1''), (''nat_gateway_id'', ''nat-1'')])
             create_allowedTargets = [''gateway_id'', ''nat_gateway_id'']"
    by (simp add: nonEmptyTargets_def create_allowedTargets_def resourceData_def Get_def)
  have b: "nonEmptyTargets (resourceData [(''instance_id'', ''i-1''), (''network_interface_id'', ''eni-1'')])
             update_allowedTargets = [''network_interface_id'', ''instance_id'']"
    by (simp add: nonEmptyTargets_def update_allowedTargets_def resourceData_def Get_def)
  have c: "nonEmptyTargets (resourceData []) create_allowedTargets = []"
    by (simp add: nonEmptyTargets_def create_allowedTargets_def resourceData_def Get_def)
  have d: "nonEmptyTargets (resourceData []) update_allowedTargets = []"
    by (simp add: nonEmptyTargets_def update_allowedTargets_def resourceData_def Get_def)
  have e: "nonEmptyTargets (resourceData [(''nat_gateway_id'', ''nat-1'')])
             update_allowedTargets = [''nat_gateway_id'']"
    by (simp add: nonEmptyTargets_def update_allowedTargets_def resourceData_def Get_def)
  have 1: "selectTarget OpCreate
     (resourceData [(''gateway_id'', ''igw-1''), (''nat_gateway_id'', ''nat-1'')])
     = Inl routeTargetValidationError"
    using selectTarget_outcomes
            [of "resourceData [(''gateway_id'', ''igw-1''), (''nat_gateway_id'', ''nat-1'')]" OpCreate]
    by (simp add: a)
  have 2: "selectTarget OpUpdate
     (resourceData [(''instance_id'', ''i-1''), (''network_interface_id'', ''eni-1'')])
     = Inr ''instance_id''"
    using selectTarget_outcomes
            [of "resourceData [(''instance_id'', ''i-1''), (''network_interface_id'', ''eni-1'')]" OpUpdate]
    by (simp add: b insert_commute)
  have 3: "selectTarget OpCreate (resourceData []) = Inl (missingTargetError create_allowedTargets)"
    using selectTarget_outcomes [of "resourceData []" OpCreate] by (simp add: c)
  have 4: "selectTarget OpUpdate (resourceData [])
     = Inl (Errorf ''An invalid target type specified: %s'' [ArgString []])"
    using selectTarget_outcomes [of "resourceData []" OpUpdate] by (simp add: d)
  have 5: "selectTarget OpUpdate (resourceData [(''nat_gateway_id'', ''nat-1'')]) = Inr ''nat_gateway_id''"
    using selectTarget_outcomes
            [of "resourceData [(''nat_gateway_id'', ''nat-1'')]" OpUpdate "''nat_gateway_id''"]
    by (simp add: e)
  from 1 2 3 4 5 show ?thesis by blast
qed

text \<open>
  Claim C1 as stated fails under update: with no target field set, update's error is not the
  missing-target error that lists the allowed field names.
\<close>

theorem update_missing_target_counterexample:
  "nonEmptyTargets (resourceData []) (allowedTargets OpUpdate) = [] \<and>
   selectTarget OpUpdate (resourceData [])
     = Inl (Errorf ''An invalid target type specified: %s'' [ArgString []]) \<and>
   selectTarget OpUpdate (resourceData []) \<noteq> Inl (missingTargetError (allowedTargets OpUpdate))"
  by (simp add: nonEmptyTargets_def update_allowedTargets_def resourceData_def Get_def
      update_payload_def update_tooManyTargets_def update_switch_def missingTargetError_def)

section \<open>Identity Generator\<close>

lemma decimal_digits: "decimal n \<noteq> [] \<and> set (decimal n) \<subseteq> set ''0123456789''"
proof (induction n rule: decimal.induct)
  case (1 n)
  show ?case
  proof (cases "n < 10")
    case True
    have "''0123456789'' ! n \<in> set ''0123456789''"
      using True by (intro nth_mem) simp
    then show ?thesis using True by (subst decimal.simps, subst decimal.simps) simp
  next
    case False
    have "''0123456789'' ! (n mod 10) \<in> set ''0123456789''"
      by (intro nth_mem) simp
    then show ?thesis using False 1 by (subst decimal.simps, subst (2) decimal.simps) simp
  qed
qed

lemma hashcode_String_range: "0 \<le> hashcode_String crc32 s \<and> hashcode_String crc32 s < 2 ^ 32"
  using uint_bounded [of "crc32 s"] by (simp add: hashcode_String_def)

lemma Sprintf_d_hashcode:
  "Sprintf_d (hashcode_String crc32 s) = decimal (unat (crc32 s))"
  by (simp add: Sprintf_d_def hashcode_String_def)

lemma strings_Split_no_sep: "sep \<notin> set b \<Longrightarrow> strings_Split b sep = [b]"
  by (induction b) auto

lemma strings_Split_one_sep:
  "sep \<notin> set a \<Longrightarrow> sep \<notin> set b \<Longrightarrow> strings_Split (a @ sep # b) sep = [a, b]"
  by (induction a) (auto simp: strings_Split_no_sep)

lemma resourceAwsRouteID_ipv6:
  "DestinationIpv6CidrBlock r = Some v6 \<Longrightarrow> v6 \<noteq> [] \<Longrightarrow>
   resourceAwsRouteID crc32 d (Some r) =
     Some (''r-'' @ Get d ''route_table_id'' @ Sprintf_d (hashcode_String crc32 v6))"
  by (simp add: resourceAwsRouteID_def)

lemma resourceAwsRouteID_ipv4:
  "DestinationIpv6CidrBlock r = None \<or> DestinationIpv6CidrBlock r = Some [] \<Longrightarrow>
   DestinationCidrBlock r = Some v4 \<Longrightarrow>
   resourceAwsRouteID crc32 d (Some r) =
     Some (''r-'' @ Get d ''route_table_id'' @ Sprintf_d (hashcode_String crc32 v4))"
  by (auto simp: resourceAwsRouteID_def)

lemma resourceAwsRouteID_depends:
  "Get d' ''route_table_id'' = Get d ''route_table_id'' \<Longrightarrow>
   DestinationCidrBlock r' = DestinationCidrBlock r \<Longrightarrow>
   DestinationIpv6CidrBlock r' = DestinationIpv6CidrBlock r \<Longrightarrow>
   resourceAwsRouteID crc32 d' (Some r') = resourceAwsRouteID crc32 d (Some r)"
  unfolding resourceAwsRouteID_def by (auto split: option.splits)

lemma importState_identity:
  assumes "ID d = T @ CHR ''_'' # dest" "CHR ''_'' \<notin> set T" "CHR ''_'' \<notin> set dest"
    "T \<noteq> []" "dest \<noteq> []"
  shows "\<exists>d'. importState crc32 d = Inr d' \<and>
           ID d' = ''r-'' @ T @ Sprintf_d (hashcode_String crc32 dest) \<and>
           Get d' ''route_table_id'' = T \<and>
           Get d' (if strings_Contains dest '':'' then ''destination_ipv6_cidr_block''
                   else ''destination_cidr_block'') = dest"
  using assms
  by (simp add: importState_def strings_Split_one_sep Let_def SetId_def Set_attr_def Get_def
      aws_StringValue_def)

text \<open>
  Claim C2. The identity is a function of the route-table id and the destination strings
  alone. With a non-empty IPv6 destination it is \<open>r-\<close>, the table id and the decimal hash
  of the IPv6 destination, whatever the IPv4 destination is; with the IPv6 destination
  absent or empty it is built from the IPv4 destination. Two computations on the same table
  id and the same destinations agree, whatever the target fields of the routes hold, and two
  routes with the same non-empty IPv6 destination get the same identity whatever their IPv4
  destinations are (so the identity of \<open>(T, v4, v6)\<close> is that of \<open>(T, "", v6)\<close>). The importer
  computes the same string from the two halves of \<open>T_destination\<close>. The hash printed is a
  number below \<open>2^32\<close>, written with decimal digits.
\<close>

theorem route_identity:
  "(DestinationIpv6CidrBlock r = Some v6 \<and> v6 \<noteq> [] \<longrightarrow>
      resourceAwsRouteID crc32 d (Some r) =
        Some (''r-'' @ Get d ''route_table_id'' @ Sprintf_d (hashcode_String crc32 v6))) \<and>
   ((DestinationIpv6CidrBlock r = None \<or> DestinationIpv6CidrBlock r = Some []) \<and>
    DestinationCidrBlock r = Some v4 \<longrightarrow>
      resourceAwsRouteID crc32 d (Some r) =
        Some (''r-'' @ Get d ''route_table_id'' @ Sprintf_d (hashcode_String crc32 v4))) \<and>
   (Get d' ''route_table_id'' = Get d ''route_table_id'' \<and>
    DestinationCidrBlock r' = DestinationCidrBlock r \<and>
    DestinationIpv6CidrBlock r' = DestinationIpv6CidrBlock r \<longrightarrow>
      resourceAwsRouteID crc32 d' (Some r') = resourceAwsRouteID crc32 d (Some r)) \<and>
   (DestinationIpv6CidrBlock r = Some v6 \<and> v6 \<noteq> [] \<and>
    DestinationIpv6CidrBlock r' = Some v6 \<and>
    Get d' ''route_table_id'' = Get d ''route_table_id'' \<longrightarrow>
      resourceAwsRouteID crc32 d' (Some r') = resourceAwsRouteID crc32 d (Some r)) \<and>
   (ID d = T @ CHR ''_'' # dest \<and> CHR ''_'' \<notin> set T \<and> CHR ''_'' \<notin> set dest \<and>
    T \<noteq> [] \<and> dest \<noteq> [] \<longrightarrow>
      map_sum id ID (importState crc32 d) =
        Inr (''r-'' @ T @ Sprintf_d (hashcode_String crc32 dest))) \<and>
   0 \<le> hashcode_String crc32 x \<and> hashcode_String crc32 x < 2 ^ 32 \<and>
   Sprintf_d (hashcode_String crc32 x) \<noteq> [] \<and>
   set (Sprintf_d (hashcode_String crc32 x)) \<subseteq> set ''0123456789''"
proof -
  have imp: "ID d = T @ CHR ''_'' # dest \<and> CHR ''_'' \<notin> set T \<and> CHR ''_'' \<notin> set dest \<and>
    T \<noteq> [] \<and> dest \<noteq> [] \<longrightarrow>
      map_sum id ID (importState crc32 d) =
        Inr (''r-'' @ T @ Sprintf_d (hashcode_String crc32 dest))"
    using importState_identity [of d T dest crc32] by auto
  have pref: "DestinationIpv6CidrBlock r = Some v6 \<and> v6 \<noteq> [] \<and>
    DestinationIpv6CidrBlock r' = Some v6 \<and>
    Get d' ''route_table_id'' = Get d ''route_table_id'' \<longrightarrow>
      resourceAwsRouteID crc32 d' (Some r') = resourceAwsRouteID crc32 d (Some r)"
    by (simp add: resourceAwsRouteID_ipv6)
  have digits: "Sprintf_d (hashcode_String crc32 x) \<noteq> [] \<and>
    set (Sprintf_d (hashcode_String crc32 x)) \<subseteq> set ''0123456789''"
    using decimal_digits [of "unat (crc32 x)"] by (simp add: Sprintf_d_hashcode)
  show ?thesis
    using imp pref digits hashcode_String_range [of crc32 x]
      resourceAwsRouteID_ipv6 [of r v6 crc32 d] resourceAwsRouteID_ipv4 [of r v4 crc32 d]
      resourceAwsRouteID_depends [of d' d r' r crc32]
    by blast
qed

text \<open>
  The theorem with the length of the string as checksum: a dual-stack route, an IPv4 route,
  two routes that differ in their target only, two routes that differ in their IPv4
  destination only, and the import of \<open>rtb-2_2001:db8::/32\<close>.
\<close>

theorem route_identity_witness:
  "resourceAwsRouteID lengthChecksum (resourceData [(''route_table_id'', ''rtb-1'')])
     (Some (emptyRoute\<lparr>DestinationCidrBlock := Some ''10.0.0.0/24'',
                        DestinationIpv6CidrBlock := Some ''2001:db8::/32'',
                        GatewayId := Some ''igw-1''\<rparr>)) = Some ''r-rtb-113'' \<and>
   resourceAwsRouteID lengthChecksum (resourceData [(''route_table_id'', ''rtb-1'')])
     (Some (emptyRoute\<lparr>DestinationCidrBlock := Some ''10.0.0.0/24'',
                        GatewayId := Some ''igw-1''\<rparr>)) = Some ''r-rtb-111'' \<and>
   resourceAwsRouteID lengthChecksum
     (resourceData [(''route_table_id'', ''rtb-1''), (''nat_gateway_id'', ''nat-1'')])
     (Some (emptyRoute\<lparr>DestinationCidrBlock := Some ''10.0.0.0/24'',
                        NatGatewayId := Some ''nat-1''\<rparr>)) =
   resourceAwsRouteID lengthChecksum (resourceData [(''route_table_id'', ''rtb-1'')])
     (Some (emptyRoute\<lparr>DestinationCidrBlock := Some ''10.0.0.0/24'',
                        GatewayId := Some ''igw-1''\<rparr>)) \<and>
   resourceAwsRouteID lengthChecksum (resourceData [(''route_table_id'', ''rtb-1'')])
     (Some (emptyRoute\<lparr>DestinationCidrBlock := Some [],
                        DestinationIpv6CidrBlock := Some ''2001:db8::/32''\<rparr>)) =
   resourceAwsRouteID lengthChecksum (resourceData [(''route_table_id'', ''rtb-1'')])
     (Some (emptyRoute\<lparr>DestinationCidrBlock := Some ''10.0.0.0/24'',
                        DestinationIpv6CidrBlock := Some ''2001:db8::/32'',
                        GatewayId := Some ''igw-1''\<rparr>)) \<and>
   map_sum id ID (importState lengthChecksum (SetId (resourceData []) ''rtb-2_2001:db8::/32''))
     = Inr ''r-rtb-213''"
proof -
  let ?d = "resourceData [(''route_table_id'', ''rtb-1'')]"
  let ?d' = "resourceData [(''route_table_id'', ''rtb-1''), (''nat_gateway_id'', ''nat-1'')]"
  let ?r64 = "emptyRoute\<lparr>DestinationCidrBlock := Some ''10.0.0.0/24'',
                        DestinationIpv6CidrBlock := Some ''2001:db8::/32'',
                        GatewayId := Some ''igw-1''\<rparr>"
  let ?r6 = "emptyRoute\<lparr>DestinationCidrBlock := Some [],
                        DestinationIpv6CidrBlock := Some ''2001:db8::/32''\<rparr>"
  let ?r4 = "emptyRoute\<lparr>DestinationCidrBlock := Some ''10.0.0.0/24'',
                        GatewayId := Some ''igw-1''\<rparr>"
  let ?r4' = "emptyRoute\<lparr>DestinationCidrBlock := Some ''10.0.0.0/24'',
                        NatGatewayId := Some ''nat-1''\<rparr>"
  let ?di = "SetId (resourceData []) ''rtb-2_2001:db8::/32''"
  have h13: "Sprintf_d (hashcode_String lengthChecksum ''2001:db8::/32'') = ''13''"
    by (simp add: hashcode_String_def lengthChecksum_def Sprintf_d_def decimal.simps)
  have h11: "Sprintf_d (hashcode_String lengthChecksum ''10.0.0.0/24'') = ''11''"
    by (simp add: hashcode_String_def lengthChecksum_def Sprintf_d_def decimal.simps)
  have t: "Get ?d ''route_table_id'' = ''rtb-1''" "Get ?d' ''route_table_id'' = ''rtb-1''"
    by (simp_all add: Get_def resourceData_def)
  have 1: "resourceAwsRouteID lengthChecksum ?d (Some ?r64) = Some ''r-rtb-113''"
    using route_identity [where r = ?r64 and ?v6.0 = "''2001:db8::/32''" and d = ?d
        and ?crc32.0 = lengthChecksum]
    by (simp add: emptyRoute_def h13 t)
  have 2: "resourceAwsRouteID lengthChecksum ?d (Some ?r4) = Some ''r-rtb-111''"
    using route_identity [where r = ?r4 and ?v4.0 = "''10.0.0.0/24''" and d = ?d
        and ?crc32.0 = lengthChecksum]
    by (simp add: emptyRoute_def h11 t)
  have 3: "resourceAwsRouteID lengthChecksum ?d' (Some ?r4') =
           resourceAwsRouteID lengthChecksum ?d (Some ?r4)"
    using route_identity [where r = ?r4 and r' = ?r4' and d = ?d and d' = ?d'
        and ?crc32.0 = lengthChecksum]
    by (simp add: emptyRoute_def t)
  have 4: "resourceAwsRouteID lengthChecksum ?d (Some ?r6) =
           resourceAwsRouteID lengthChecksum ?d (Some ?r64)"
    using route_identity [where r = ?r64 and r' = ?r6 and d = ?d and d' = ?d
        and ?v6.0 = "''2001:db8::/32''" and ?crc32.0 = lengthChecksum]
    by (simp add: emptyRoute_def)
  have 5: "map_sum id ID (importState lengthChecksum ?di) = Inr ''r-rtb-213''"
    using route_identity [where d = ?di and T = "''rtb-2''" and dest = "''2001:db8::/32''"
        and ?crc32.0 = lengthChecksum]
    by (simp add: SetId_def resourceData_def h13)
  from 1 2 3 4 5 show ?thesis by blast
qed

text \<open>
  Claim C8, amended. \<open>resourceAwsRouteID\<close> returns a string and has no error result. For
  a route whose IPv6 destination is absent or empty and whose IPv4 destination is present
  and empty, it succeeds: the identity is \<open>r-\<close>, the table id and the decimal hash of the
  empty string.
\<close>

theorem identity_of_empty_destination:
  "(DestinationIpv6CidrBlock r = None \<or> DestinationIpv6CidrBlock r = Some []) \<and>
   DestinationCidrBlock r = Some [] \<longrightarrow>
   resourceAwsRouteID crc32 d (Some r) =
     Some (''r-'' @ Get d ''route_table_id'' @ Sprintf_d (hashcode_String crc32 []))"
  using resourceAwsRouteID_ipv4 [of r "[]" crc32 d] by blast

text \<open>
  The theorem at a route whose only destination is the empty IPv4 string.
\<close>

theorem identity_of_empty_destination_witness:
  "resourceAwsRouteID lengthChecksum (resourceData [(''route_table_id'', ''rtb-1'')])
     (Some (emptyRoute\<lparr>DestinationCidrBlock := Some []\<rparr>)) = Some ''r-rtb-10''"
proof -
  have h0: "Sprintf_d (hashcode_String lengthChecksum []) = ''0''"
    by (simp add: hashcode_String_def lengthChecksum_def Sprintf_d_def decimal.simps)
  have t: "Get (resourceData [(''route_table_id'', ''rtb-1'')]) ''route_table_id'' = ''rtb-1''"
    by (simp add: Get_def resourceData_def)
  show ?thesis
    using identity_of_empty_destination
      [of "emptyRoute\<lparr>DestinationCidrBlock := Some []\<rparr>" lengthChecksum
          "resourceData [(''route_table_id'', ''rtb-1'')]"]
    by (simp add: emptyRoute_def h0 t)
qed

text \<open>
  Claim C8 as stated fails: with both destinations empty the computation succeeds and
  returns an identity, it does not fail with an error.
\<close>

theorem no_destination_counterexample:
  "resourceAwsRouteID lengthChecksum (resourceData [(''route_table_id'', ''rtb-1'')])
     (Some (emptyRoute\<lparr>DestinationCidrBlock := Some [], DestinationIpv6CidrBlock := Some []\<rparr>))
   = Some ''r-rtb-10''"
  by (simp add: resourceAwsRouteID_def emptyRoute_def Get_def resourceData_def
      hashcode_String_def lengthChecksum_def Sprintf_d_def decimal.simps)

section \<open>Route Locator\<close>

lemma findByCidr_find:
  "findByCidr cidr routes = find (\<lambda>r. DestinationCidrBlock r = Some cidr) routes"
  by (induction routes) auto

lemma findByIpv6Cidr_find:
  "findByIpv6Cidr cidrBlocksEqual ipv6cidr routes =
     find (\<lambda>r. cidrBlocksEqual (aws_StringValue (DestinationIpv6CidrBlock r)) ipv6cidr) routes"
  by (induction routes) auto

lemma find_Some_member: "x \<in> set xs \<Longrightarrow> P x \<Longrightarrow> \<exists>y. find P xs = Some y \<and> P y"
  by (induction xs) auto

lemma FindRoute_error:
  "conn_DescribeRouteTables conn [rtbid] s = (Inl err, s') \<Longrightarrow>
   resourceAwsRouteFindRoute conn cidrBlocksEqual rtbid cidr ipv6cidr s = (Inl err, s')"
  by (simp add: resourceAwsRouteFindRoute_def)

lemma FindRoute_table:
  "conn_DescribeRouteTables conn [rtbid] s = (Inr (Some table # others), s') \<Longrightarrow>
   resourceAwsRouteFindRoute conn cidrBlocksEqual rtbid cidr ipv6cidr s =
     (Inr (if cidr \<noteq> [] then findByCidr cidr (Routes table)
           else if ipv6cidr \<noteq> [] then findByIpv6Cidr cidrBlocksEqual ipv6cidr (Routes table)
           else None), s')"
  by (simp add: resourceAwsRouteFindRoute_def)

lemma FindRoute_no_destination:
  "conn_DescribeRouteTables conn [rtbid] s = (Inr tables, s') \<Longrightarrow>
   resourceAwsRouteFindRoute conn cidrBlocksEqual rtbid [] [] s = (Inr None, s')"
  by (simp add: resourceAwsRouteFindRoute_def split: list.splits option.splits)

lemma FindRoute_one_call:
  "\<exists>resp. trace (snd (resourceAwsRouteFindRoute conn cidrBlocksEqual rtbid cidr ipv6cidr s))
            = trace s @ [CallDescribeRouteTables [rtbid] resp]"
  by (cases "conn_DescribeRouteTables conn [rtbid] s")
     (auto simp: resourceAwsRouteFindRoute_def dest: conn_DescribeRouteTables_trace
        split: sum.splits list.splits option.splits)

lemma exEq: "specCidrBlocksEqual ''0:0:0:0:0:0:0:1/128'' ''::1/128''" by code_simp

lemma exNe: "\<not> specCidrBlocksEqual [] ''::1/128''" by code_simp

text \<open>
  Claim C3. For a table that the describe call returns: a non-empty IPv4 query destination
  is matched by string equality against each route's IPv4 destination and the first match
  is returned, whatever the IPv6 query destination is (IPv4 takes precedence); with the IPv4
  query destination empty, a non-empty IPv6 query destination is matched with the helper
  \<open>cidrBlocksEqual\<close> against each route's IPv6 destination, so a route is found whenever the
  helper equates its destination with the query, also when the two strings differ. The
  result is the first matching route, or absent when there is none.
\<close>

theorem locator_matching:
  assumes "conn_DescribeRouteTables conn [rtbid] s = (Inr (Some table # others), s')"
  shows
    "(cidr \<noteq> [] \<longrightarrow>
        resourceAwsRouteFindRoute conn cidrBlocksEqual rtbid cidr ipv6cidr s =
          (Inr (find (\<lambda>r. DestinationCidrBlock r = Some cidr) (Routes table)), s')) \<and>
     (cidr = [] \<and> ipv6cidr \<noteq> [] \<longrightarrow>
        resourceAwsRouteFindRoute conn cidrBlocksEqual rtbid cidr ipv6cidr s =
          (Inr (find (\<lambda>r. cidrBlocksEqual (aws_StringValue (DestinationIpv6CidrBlock r)) ipv6cidr)
                  (Routes table)), s')) \<and>
     (cidr = [] \<and> ipv6cidr \<noteq> [] \<and> route \<in> set (Routes table) \<and>
      cidrBlocksEqual (aws_StringValue (DestinationIpv6CidrBlock route)) ipv6cidr \<longrightarrow>
        (\<exists>found. resourceAwsRouteFindRoute conn cidrBlocksEqual rtbid cidr ipv6cidr s =
                   (Inr (Some found), s') \<and>
                 found \<in> set (Routes table) \<and>
                 cidrBlocksEqual (aws_StringValue (DestinationIpv6CidrBlock found)) ipv6cidr))"
proof -
  have v4: "cidr \<noteq> [] \<longrightarrow>
        resourceAwsRouteFindRoute conn cidrBlocksEqual rtbid cidr ipv6cidr s =
          (Inr (find (\<lambda>r. DestinationCidrBlock r = Some cidr) (Routes table)), s')"
    using FindRoute_table [OF assms] by (simp add: findByCidr_find)
  have v6: "cidr = [] \<and> ipv6cidr \<noteq> [] \<longrightarrow>
        resourceAwsRouteFindRoute conn cidrBlocksEqual rtbid cidr ipv6cidr s =
          (Inr (find (\<lambda>r. cidrBlocksEqual (aws_StringValue (DestinationIpv6CidrBlock r)) ipv6cidr)
                  (Routes table)), s')"
    using FindRoute_table [OF assms] by (simp add: findByIpv6Cidr_find)
  have tol: "cidr = [] \<and> ipv6cidr \<noteq> [] \<and> route \<in> set (Routes table) \<and>
      cidrBlocksEqual (aws_StringValue (DestinationIpv6CidrBlock route)) ipv6cidr \<longrightarrow>
        (\<exists>found. resourceAwsRouteFindRoute conn cidrBlocksEqual rtbid cidr ipv6cidr s =
                   (Inr (Some found), s') \<and>
                 found \<in> set (Routes table) \<and>
                 cidrBlocksEqual (aws_StringValue (DestinationIpv6CidrBlock found)) ipv6cidr)"
  proof (intro impI, elim conjE)
    assume a: "cidr = []" "ipv6cidr \<noteq> []" "route \<in> set (Routes table)"
      "cidrBlocksEqual (aws_StringValue (DestinationIpv6CidrBlock route)) ipv6cidr"
    from a(3,4) obtain found where
      f: "find (\<lambda>r. cidrBlocksEqual (aws_StringValue (DestinationIpv6CidrBlock r)) ipv6cidr)
            (Routes table) = Some found"
      using find_Some_member
        [of route "Routes table" "\<lambda>r. cidrBlocksEqual (aws_StringValue (DestinationIpv6CidrBlock r)) ipv6cidr"]
      by blast
    then have "found \<in> set (Routes table) \<and>
        cidrBlocksEqual (aws_StringValue (DestinationIpv6CidrBlock found)) ipv6cidr"
      by (auto simp: find_Some_iff)
    with f v6 a show "\<exists>found. resourceAwsRouteFindRoute conn cidrBlocksEqual rtbid cidr ipv6cidr s =
                   (Inr (Some found), s') \<and>
                 found \<in> set (Routes table) \<and>
                 cidrBlocksEqual (aws_StringValue (DestinationIpv6CidrBlock found)) ipv6cidr"
      by simp
  qed
  from v4 v6 tol show ?thesis by blast
qed

text \<open>
  The theorem on the example table, with the CIDR equality modelled from the spec: queried
  with both destinations the locator returns the IPv4 route; queried with \<open>::1/128\<close> alone
  it returns the route stored as \<open>0:0:0:0:0:0:0:1/128\<close>.
\<close>

theorem locator_matching_witness:
  "resourceAwsRouteFindRoute scripted specCidrBlocksEqual ''rtb-1'' ''10.0.0.0/16'' ''::1/128''
     (script [] [] [] [Inr [Some exTable]])
   = (Inr (Some (emptyRoute\<lparr>DestinationCidrBlock := Some ''10.0.0.0/16'',
                               GatewayId := Some ''igw-1''\<rparr>)),
      \<lparr>world = \<lparr>createAnswers = [], replaceAnswers = [], deleteAnswers = [],
                 describeAnswers = []\<rparr>,
       trace = [CallDescribeRouteTables [''rtb-1''] (Inr [Some exTable])]\<rparr>) \<and>
   resourceAwsRouteFindRoute scripted specCidrBlocksEqual ''rtb-1'' [] ''::1/128''
     (script [] [] [] [Inr [Some exTable]])
   = (Inr (Some (emptyRoute\<lparr>DestinationIpv6CidrBlock := Some ''0:0:0:0:0:0:0:1/128'',
                               EgressOnlyInternetGatewayId := Some ''eigw-1''\<rparr>)),
      \<lparr>world = \<lparr>createAnswers = [], replaceAnswers = [], deleteAnswers = [],
                 describeAnswers = []\<rparr>,
       trace = [CallDescribeRouteTables [''rtb-1''] (Inr [Some exTable])]\<rparr>) \<and>
   fst (resourceAwsRouteFindRoute scripted specCidrBlocksEqual ''rtb-1'' [] ''::1/128''
          (script [] [] [] [Inr [Some exTable]])) \<noteq> Inr None"
proof -
  let ?s = "script [] [] [] [Inr [Some exTable]]"
  let ?s' = "\<lparr>world = \<lparr>createAnswers = [], replaceAnswers = [], deleteAnswers = [],
                 describeAnswers = []\<rparr>,
       trace = [CallDescribeRouteTables [''rtb-1''] (Inr [Some exTable])]\<rparr>"
  have d: "conn_DescribeRouteTables scripted [''rtb-1''] ?s = (Inr [Some exTable], ?s')"
    by (simp add: conn_DescribeRouteTables_def scripted_def script_def)
  have 1: "resourceAwsRouteFindRoute scripted specCidrBlocksEqual ''rtb-1'' ''10.0.0.0/16'' ''::1/128'' ?s
     = (Inr (Some (emptyRoute\<lparr>DestinationCidrBlock := Some ''10.0.0.0/16'',
                               GatewayId := Some ''igw-1''\<rparr>)), ?s')"
    using locator_matching [OF d, of "''10.0.0.0/16''" specCidrBlocksEqual "''::1/128''"]
    by (simp add: exTable_def emptyRoute_def)
  have 2: "resourceAwsRouteFindRoute scripted specCidrBlocksEqual ''rtb-1'' [] ''::1/128'' ?s
     = (Inr (Some (emptyRoute\<lparr>DestinationIpv6CidrBlock := Some ''0:0:0:0:0:0:0:1/128'',
                               EgressOnlyInternetGatewayId := Some ''eigw-1''\<rparr>)), ?s')"
    using locator_matching [OF d, of "[]" specCidrBlocksEqual "''::1/128''"]
    by (simp add: exTable_def emptyRoute_def aws_StringValue_def exEq exNe)
  have m: "emptyRoute\<lparr>DestinationIpv6CidrBlock := Some ''0:0:0:0:0:0:0:1/128'',
                       EgressOnlyInternetGatewayId := Some ''eigw-1''\<rparr> \<in> set (Routes exTable)"
    by (simp add: exTable_def)
  have e: "specCidrBlocksEqual
             (aws_StringValue (DestinationIpv6CidrBlock
                (emptyRoute\<lparr>DestinationIpv6CidrBlock := Some ''0:0:0:0:0:0:0:1/128'',
                             EgressOnlyInternetGatewayId := Some ''eigw-1''\<rparr>))) ''::1/128''"
    by (simp add: aws_StringValue_def exEq)
  have 3: "fst (resourceAwsRouteFindRoute scripted specCidrBlocksEqual ''rtb-1'' [] ''::1/128'' ?s)
           \<noteq> Inr None"
    using locator_matching [OF d, where cidr = "[]" and ipv6cidr = "''::1/128''"
        and cidrBlocksEqual = specCidrBlocksEqual
        and route = "emptyRoute\<lparr>DestinationIpv6CidrBlock := Some ''0:0:0:0:0:0:0:1/128'',
                                 EgressOnlyInternetGatewayId := Some ''eigw-1''\<rparr>",
        THEN conjunct2, THEN conjunct2] m e
    by auto
  from 1 2 3 show ?thesis by blast
qed

lemma FindRoute_no_table:
  "conn_DescribeRouteTables conn [rtbid] s = (Inr [], s') \<or>
   conn_DescribeRouteTables conn [rtbid] s = (Inr (None # others), s') \<Longrightarrow>
   resourceAwsRouteFindRoute conn cidrBlocksEqual rtbid cidr ipv6cidr s = (Inr None, s')"
  by (auto simp: resourceAwsRouteFindRoute_def)

text \<open>
  Claim C9, amended. When the describe call fails with the remote's table-not-found error
  (the error code \<open>InvalidRouteTableID.NotFound\<close>, the one read tests for), the locator
  returns that error as it is; this differs from the absent result, which is what the
  locator returns for a table that exists and has no matching route. When the describe call
  succeeds and its answer holds no table (an empty list, or a nil first entry), the locator
  returns absent with no error, the same result as for a table without a matching route.
\<close>

theorem locator_table_not_found:
  "(conn_DescribeRouteTables conn [rtbid] s =
      (Inl (AWSError ''InvalidRouteTableID.NotFound'' m), s') \<longrightarrow>
      resourceAwsRouteFindRoute conn cidrBlocksEqual rtbid cidr ipv6cidr s =
        (Inl (AWSError ''InvalidRouteTableID.NotFound'' m), s') \<and>
      fst (resourceAwsRouteFindRoute conn cidrBlocksEqual rtbid cidr ipv6cidr s) \<noteq> Inr None \<and>
      isAWSErr (Some (AWSError ''InvalidRouteTableID.NotFound'' m))
        ''InvalidRouteTableID.NotFound'' []) \<and>
   (conn_DescribeRouteTables conn [rtbid] s = (Inr (Some table # others), s') \<and>
    findByCidr cidr (Routes table) = None \<and>
    findByIpv6Cidr cidrBlocksEqual ipv6cidr (Routes table) = None \<longrightarrow>
      resourceAwsRouteFindRoute conn cidrBlocksEqual rtbid cidr ipv6cidr s = (Inr None, s')) \<and>
   (conn_DescribeRouteTables conn [rtbid] s = (Inr [], s') \<or>
    conn_DescribeRouteTables conn [rtbid] s = (Inr (None # others), s') \<longrightarrow>
      resourceAwsRouteFindRoute conn cidrBlocksEqual rtbid cidr ipv6cidr s = (Inr None, s'))"
proof -
  have 1: "conn_DescribeRouteTables conn [rtbid] s =
      (Inl (AWSError ''InvalidRouteTableID.NotFound'' m), s') \<longrightarrow>
      resourceAwsRouteFindRoute conn cidrBlocksEqual rtbid cidr ipv6cidr s =
        (Inl (AWSError ''InvalidRouteTableID.NotFound'' m), s') \<and>
      fst (resourceAwsRouteFindRoute conn cidrBlocksEqual rtbid cidr ipv6cidr s) \<noteq> Inr None \<and>
      isAWSErr (Some (AWSError ''InvalidRouteTableID.NotFound'' m))
        ''InvalidRouteTableID.NotFound'' []"
    using FindRoute_error [of conn rtbid s "AWSError ''InvalidRouteTableID.NotFound'' m" s'
        cidrBlocksEqual cidr ipv6cidr]
    by (auto simp: isAWSErr_code)
  have 2: "conn_DescribeRouteTables conn [rtbid] s = (Inr (Some table # others), s') \<and>
    findByCidr cidr (Routes table) = None \<and>
    findByIpv6Cidr cidrBlocksEqual ipv6cidr (Routes table) = None \<longrightarrow>
      resourceAwsRouteFindRoute conn cidrBlocksEqual rtbid cidr ipv6cidr s = (Inr None, s')"
    using FindRoute_table [of conn rtbid s table others s' cidrBlocksEqual cidr ipv6cidr]
    by auto
  have 3: "conn_DescribeRouteTables conn [rtbid] s = (Inr [], s') \<or>
    conn_DescribeRouteTables conn [rtbid] s = (Inr (None # others), s') \<longrightarrow>
      resourceAwsRouteFindRoute conn cidrBlocksEqual rtbid cidr ipv6cidr s = (Inr None, s')"
    using FindRoute_no_table [of conn rtbid s s' others cidrBlocksEqual cidr ipv6cidr]
    by blast
  from 1 2 3 show ?thesis by blast
qed

text \<open>
  The theorem on the scripted remote: a table reported as not found gives the error; the
  example table queried for a destination it does not hold gives absent; a describe answer
  without a table, and one whose first entry is nil, give absent.
\<close>

theorem locator_table_not_found_witness:
  "resourceAwsRouteFindRoute scripted specCidrBlocksEqual ''rtb-9'' ''10.0.0.0/16'' []
     (script [] [] [] [Inl (AWSError ''InvalidRouteTableID.NotFound'' ''no such table'')])
   = (Inl (AWSError ''InvalidRouteTableID.NotFound'' ''no such table''),
      \<lparr>world = scriptDone,
       trace = [CallDescribeRouteTables [''rtb-9'']
                  (Inl (AWSError ''InvalidRouteTableID.NotFound'' ''no such table''))]\<rparr>) \<and>
   resourceAwsRouteFindRoute scripted specCidrBlocksEqual ''rtb-1'' ''10.9.0.0/16'' []
     (script [] [] [] [Inr [Some exTable]])
   = (Inr None,
      \<lparr>world = scriptDone,
       trace = [CallDescribeRouteTables [''rtb-1''] (Inr [Some exTable])]\<rparr>) \<and>
   resourceAwsRouteFindRoute scripted specCidrBlocksEqual ''rtb-9'' ''10.0.0.0/16'' []
     (script [] [] [] [Inr []])
   = (Inr None,
      \<lparr>world = scriptDone, trace = [CallDescribeRouteTables [''rtb-9''] (Inr [])]\<rparr>) \<and>
   resourceAwsRouteFindRoute scripted specCidrBlocksEqual ''rtb-9'' ''10.0.0.0/16'' []
     (script [] [] [] [Inr [None]])
   = (Inr None,
      \<lparr>world = scriptDone, trace = [CallDescribeRouteTables [''rtb-9''] (Inr [None])]\<rparr>)"
proof -
  let ?e = "AWSError ''InvalidRouteTableID.NotFound'' ''no such table''"
  have n4: "findByCidr ''10.9.0.0/16'' (Routes exTable) = None"
    by (simp add: exTable_def emptyRoute_def)
  have n6: "findByIpv6Cidr specCidrBlocksEqual [] (Routes exTable) = None"
    by code_simp
  note T = locator_table_not_found [where conn = scripted
        and cidrBlocksEqual = specCidrBlocksEqual and ipv6cidr = "[]"]
  have 1: "resourceAwsRouteFindRoute scripted specCidrBlocksEqual ''rtb-9'' ''10.0.0.0/16'' []
     (script [] [] [] [Inl ?e])
   = (Inl ?e, \<lparr>world = scriptDone, trace = [CallDescribeRouteTables [''rtb-9''] (Inl ?e)]\<rparr>)"
    using T [where rtbid = "''rtb-9''" and s = "script [] [] [] [Inl ?e]"
        and m = "''no such table''" and cidr = "''10.0.0.0/16''", THEN conjunct1, rule_format,
        OF describe_scripted]
    by simp
  have 2: "resourceAwsRouteFindRoute scripted specCidrBlocksEqual ''rtb-1'' ''10.9.0.0/16'' []
     (script [] [] [] [Inr [Some exTable]])
   = (Inr None, \<lparr>world = scriptDone,
        trace = [CallDescribeRouteTables [''rtb-1''] (Inr [Some exTable])]\<rparr>)"
    using T [where rtbid = "''rtb-1''" and s = "script [] [] [] [Inr [Some exTable]]"
        and table = exTable and others = "[]" and cidr = "''10.9.0.0/16''",
        THEN conjunct2, THEN conjunct1, rule_format,
        OF conjI [OF describe_scripted conjI [OF n4 n6]]]
    by simp
  have 3: "resourceAwsRouteFindRoute scripted specCidrBlocksEqual ''rtb-9'' ''10.0.0.0/16'' []
     (script [] [] [] [Inr []])
   = (Inr None, \<lparr>world = scriptDone, trace = [CallDescribeRouteTables [''rtb-9''] (Inr [])]\<rparr>)"
    using T [where rtbid = "''rtb-9''" and s = "script [] [] [] [Inr []]"
        and cidr = "''10.0.0.0/16''", THEN conjunct2, THEN conjunct2, rule_format,
        OF disjI1, OF describe_scripted]
    by simp
  have 4: "resourceAwsRouteFindRoute scripted specCidrBlocksEqual ''rtb-9'' ''10.0.0.0/16'' []
     (script [] [] [] [Inr [None]])
   = (Inr None, \<lparr>world = scriptDone,
        trace = [CallDescribeRouteTables [''rtb-9''] (Inr [None])]\<rparr>)"
    using T [where rtbid = "''rtb-9''" and s = "script [] [] [] [Inr [None]]"
        and others = "[]" and cidr = "''10.0.0.0/16''", THEN conjunct2, THEN conjunct2,
        rule_format, OF disjI2, OF describe_scripted]
    by simp
  from 1 2 3 4 show ?thesis by blast
qed

text \<open>
  Claim C9 as stated fails when the remote reports the missing table by a describe answer
  that succeeds and holds no table: the locator returns absent with no error, the very
  result it returns for the example table queried for a destination it does not hold, so
  the caller cannot tell the two apart.
\<close>

theorem locator_empty_answer_counterexample:
  "resourceAwsRouteFindRoute scripted specCidrBlocksEqual ''rtb-9'' ''10.9.0.0/16'' []
     (script [] [] [] [Inr []])
   = (Inr None,
      \<lparr>world = scriptDone, trace = [CallDescribeRouteTables [''rtb-9''] (Inr [])]\<rparr>) \<and>
   fst (resourceAwsRouteFindRoute scripted specCidrBlocksEqual ''rtb-9'' ''10.9.0.0/16'' []
          (script [] [] [] [Inr []]))
   = fst (resourceAwsRouteFindRoute scripted specCidrBlocksEqual ''rtb-1'' ''10.9.0.0/16'' []
            (script [] [] [] [Inr [Some exTable]]))"
  by (simp add: resourceAwsRouteFindRoute_def describe_scripted exTable_def emptyRoute_def)


section \<open>Read\<close>

lemma Read_found:
  "resourceAwsRouteFindRoute conn cidrBlocksEqual (Get d ''route_table_id'')
     (Get d ''destination_cidr_block'') (Get d ''destination_ipv6_cidr_block'') s
     = (Inr (Some route), s') \<Longrightarrow>
   resourceAwsRouteRead conn cidrBlocksEqual d s = ((None, read_setAll d route), s')"
  by (simp add: resourceAwsRouteRead_def)

lemma Read_absent:
  "resourceAwsRouteFindRoute conn cidrBlocksEqual (Get d ''route_table_id'')
     (Get d ''destination_cidr_block'') (Get d ''destination_ipv6_cidr_block'') s
     = (Inr None, s') \<Longrightarrow>
   resourceAwsRouteRead conn cidrBlocksEqual d s = ((None, SetId d []), s')"
  by (simp add: resourceAwsRouteRead_def)

lemma Read_error:
  "resourceAwsRouteFindRoute conn cidrBlocksEqual (Get d ''route_table_id'')
     (Get d ''destination_cidr_block'') (Get d ''destination_ipv6_cidr_block'') s
     = (Inl err, s') \<Longrightarrow>
   resourceAwsRouteRead conn cidrBlocksEqual d s =
     (if isAWSErr (Some err) ''InvalidRouteTableID.NotFound'' [] then ((None, SetId d []), s')
      else ((Some err, d), s'))"
  by (simp add: resourceAwsRouteRead_def)

lemma read_setAll_ID: "ID (read_setAll d route) = ID d"
  by (simp add: read_setAll_def Set_attr_def)

lemma read_setAll_Get:
  "Get (read_setAll d route) key =
     (case map_of observedFields key of
        None \<Rightarrow> Get d key
      | Some field \<Rightarrow> aws_StringValue (field route))"
  by (simp add: read_setAll_def Set_attr_def Get_def observedFields_def)

text \<open>
  Claim C5, amended. Read has four outcomes. When the describe call reports the table as
  not found (error code \<open>InvalidRouteTableID.NotFound\<close>), and when the locator returns
  absent, read clears the identity and returns no error. When the describe call fails with
  any other error, read returns that error and leaves the resource data as it is. When the
  locator returns a route, read returns no error, keeps the identity and sets each of the
  fourteen observed attributes from the route's field (the empty string for a nil field),
  leaving every other attribute as it is.
\<close>

theorem read_outcomes:
  "(conn_DescribeRouteTables conn [Get d ''route_table_id''] s =
      (Inl (AWSError ''InvalidRouteTableID.NotFound'' m), s') \<longrightarrow>
      resourceAwsRouteRead conn cidrBlocksEqual d s = ((None, SetId d []), s')) \<and>
   (resourceAwsRouteFindRoute conn cidrBlocksEqual (Get d ''route_table_id'')
      (Get d ''destination_cidr_block'') (Get d ''destination_ipv6_cidr_block'') s
      = (Inr None, s') \<longrightarrow>
      resourceAwsRouteRead conn cidrBlocksEqual d s = ((None, SetId d []), s')) \<and>
   (conn_DescribeRouteTables conn [Get d ''route_table_id''] s = (Inl err, s') \<and>
    \<not> isAWSErr (Some err) ''InvalidRouteTableID.NotFound'' [] \<longrightarrow>
      resourceAwsRouteRead conn cidrBlocksEqual d s = ((Some err, d), s')) \<and>
   (resourceAwsRouteFindRoute conn cidrBlocksEqual (Get d ''route_table_id'')
      (Get d ''destination_cidr_block'') (Get d ''destination_ipv6_cidr_block'') s
      = (Inr (Some route), s') \<longrightarrow>
      (\<exists>d'. resourceAwsRouteRead conn cidrBlocksEqual d s = ((None, d'), s') \<and>
            ID d' = ID d \<and>
            (\<forall>key. Get d' key =
               (case map_of observedFields key of
                  None \<Rightarrow> Get d key
                | Some field \<Rightarrow> aws_StringValue (field route)))))"
proof -
  have 1: "conn_DescribeRouteTables conn [Get d ''route_table_id''] s =
      (Inl (AWSError ''InvalidRouteTableID.NotFound'' m), s') \<longrightarrow>
      resourceAwsRouteRead conn cidrBlocksEqual d s = ((None, SetId d []), s')"
    using Read_error FindRoute_error by (fastforce simp: isAWSErr_code)
  have 3: "conn_DescribeRouteTables conn [Get d ''route_table_id''] s = (Inl err, s') \<and>
    \<not> isAWSErr (Some err) ''InvalidRouteTableID.NotFound'' [] \<longrightarrow>
      resourceAwsRouteRead conn cidrBlocksEqual d s = ((Some err, d), s')"
    using Read_error FindRoute_error by fastforce
  have 4: "resourceAwsRouteFindRoute conn cidrBlocksEqual (Get d ''route_table_id'')
      (Get d ''destination_cidr_block'') (Get d ''destination_ipv6_cidr_block'') s
      = (Inr (Some route), s') \<longrightarrow>
      (\<exists>d'. resourceAwsRouteRead conn cidrBlocksEqual d s = ((None, d'), s') \<and>
            ID d' = ID d \<and>
            (\<forall>key. Get d' key =
               (case map_of observedFields key of
                  None \<Rightarrow> Get d key
                | Some field \<Rightarrow> aws_StringValue (field route))))"
    using Read_found [of conn cidrBlocksEqual d s route s'] read_setAll_ID [of d route]
      read_setAll_Get [of d route]
    by auto
  from 1 3 4 Read_absent [of conn cidrBlocksEqual d s s'] show ?thesis by blast
qed

text \<open>
  The theorem on the scripted remote, for the recorded route of the examples: the table
  reported as not found, a table without routes, a throttled describe call, and the example
  table, whose route now points at \<open>igw-1\<close>.
\<close>

theorem read_outcomes_witness:
  "resourceAwsRouteRead scripted specCidrBlocksEqual exRecorded
     (script [] [] [] [Inl (AWSError ''InvalidRouteTableID.NotFound'' ''no such table'')])
   = ((None, SetId exRecorded []),
      \<lparr>world = scriptDone,
       trace = [CallDescribeRouteTables [''rtb-1'']
                  (Inl (AWSError ''InvalidRouteTableID.NotFound'' ''no such table''))]\<rparr>) \<and>
   resourceAwsRouteRead scripted specCidrBlocksEqual exRecorded
     (script [] [] [] [Inr [Some \<lparr>Routes = []\<rparr>]])
   = ((None, SetId exRecorded []),
      \<lparr>world = scriptDone,
       trace = [CallDescribeRouteTables [''rtb-1''] (Inr [Some \<lparr>Routes = []\<rparr>])]\<rparr>) \<and>
   resourceAwsRouteRead scripted specCidrBlocksEqual exRecorded
     (script [] [] [] [Inl (AWSError ''RequestLimitExceeded'' ''slow down'')])
   = ((Some (AWSError ''RequestLimitExceeded'' ''slow down''), exRecorded),
      \<lparr>world = scriptDone,
       trace = [CallDescribeRouteTables [''rtb-1'']
                  (Inl (AWSError ''RequestLimitExceeded'' ''slow down''))]\<rparr>) \<and>
   fst (fst (resourceAwsRouteRead scripted specCidrBlocksEqual exRecorded
               (script [] [] [] [Inr [Some exTable]]))) = None \<and>
   ID (snd (fst (resourceAwsRouteRead scripted specCidrBlocksEqual exRecorded
                   (script [] [] [] [Inr [Some exTable]])))) = ''r-rtb-111'' \<and>
   Get (snd (fst (resourceAwsRouteRead scripted specCidrBlocksEqual exRecorded
                    (script [] [] [] [Inr [Some exTable]])))) ''gateway_id'' = ''igw-1'' \<and>
   Get (snd (fst (resourceAwsRouteRead scripted specCidrBlocksEqual exRecorded
                    (script [] [] [] [Inr [Some exTable]])))) ''route_table_id'' = ''rtb-1''"
proof -
  let ?nf = "AWSError ''InvalidRouteTableID.NotFound'' ''no such table''"
  let ?rl = "AWSError ''RequestLimitExceeded'' ''slow down''"
  let ?r = "emptyRoute\<lparr>DestinationCidrBlock := Some ''10.0.0.0/16'', GatewayId := Some ''igw-1''\<rparr>"
  let ?s4 = "\<lparr>world = scriptDone, trace = [CallDescribeRouteTables [''rtb-1''] (Inr [Some exTable])]\<rparr>"
  have 1: "resourceAwsRouteRead scripted specCidrBlocksEqual exRecorded (script [] [] [] [Inl ?nf])
     = ((None, SetId exRecorded []),
        \<lparr>world = scriptDone, trace = [CallDescribeRouteTables [''rtb-1''] (Inl ?nf)]\<rparr>)"
    using read_outcomes [where conn = scripted and d = exRecorded
        and s = "script [] [] [] [Inl ?nf]" and m = "''no such table''"
        and cidrBlocksEqual = specCidrBlocksEqual]
    by (simp add: describe_scripted exRecorded_Get)
  have f2: "resourceAwsRouteFindRoute scripted specCidrBlocksEqual ''rtb-1'' ''10.0.0.0/16'' []
      (script [] [] [] [Inr [Some \<lparr>Routes = []\<rparr>]])
     = (Inr None, \<lparr>world = scriptDone,
          trace = [CallDescribeRouteTables [''rtb-1''] (Inr [Some \<lparr>Routes = []\<rparr>])]\<rparr>)"
    by (simp add: resourceAwsRouteFindRoute_def describe_scripted)
  have 2: "resourceAwsRouteRead scripted specCidrBlocksEqual exRecorded
      (script [] [] [] [Inr [Some \<lparr>Routes = []\<rparr>]])
     = ((None, SetId exRecorded []),
        \<lparr>world = scriptDone,
         trace = [CallDescribeRouteTables [''rtb-1''] (Inr [Some \<lparr>Routes = []\<rparr>])]\<rparr>)"
    using read_outcomes [where conn = scripted and d = exRecorded
        and s = "script [] [] [] [Inr [Some \<lparr>Routes = []\<rparr>]]"
        and cidrBlocksEqual = specCidrBlocksEqual] f2
    by (simp add: exRecorded_Get)
  have 3: "resourceAwsRouteRead scripted specCidrBlocksEqual exRecorded (script [] [] [] [Inl ?rl])
     = ((Some ?rl, exRecorded),
        \<lparr>world = scriptDone, trace = [CallDescribeRouteTables [''rtb-1''] (Inl ?rl)]\<rparr>)"
    using read_outcomes [where conn = scripted and d = exRecorded
        and s = "script [] [] [] [Inl ?rl]" and err = ?rl
        and cidrBlocksEqual = specCidrBlocksEqual]
    by (simp add: describe_scripted exRecorded_Get isAWSErr_code)
  have f4: "resourceAwsRouteFindRoute scripted specCidrBlocksEqual ''rtb-1'' ''10.0.0.0/16'' []
      (script [] [] [] [Inr [Some exTable]]) = (Inr (Some ?r), ?s4)"
    by (simp add: resourceAwsRouteFindRoute_def describe_scripted exTable_def emptyRoute_def)
  have "\<exists>d'. resourceAwsRouteRead scripted specCidrBlocksEqual exRecorded
        (script [] [] [] [Inr [Some exTable]]) = ((None, d'), ?s4) \<and>
      ID d' = ID exRecorded \<and>
      (\<forall>key. Get d' key = (case map_of observedFields key of
                  None \<Rightarrow> Get exRecorded key
                | Some field \<Rightarrow> aws_StringValue (field ?r)))"
    using read_outcomes [where conn = scripted and d = exRecorded
        and s = "script [] [] [] [Inr [Some exTable]]" and route = ?r and s' = ?s4
        and cidrBlocksEqual = specCidrBlocksEqual and m = "[]" and err = "ErrorNew []"] f4
    by (simp only: exRecorded_Get(1,2,3))
  then obtain d' where d': "resourceAwsRouteRead scripted specCidrBlocksEqual exRecorded
        (script [] [] [] [Inr [Some exTable]]) = ((None, d'), ?s4)"
      "ID d' = ID exRecorded"
      "\<forall>key. Get d' key = (case map_of observedFields key of
                  None \<Rightarrow> Get exRecorded key
                | Some field \<Rightarrow> aws_StringValue (field ?r))"
    by blast
  have g: "Get d' ''gateway_id'' = ''igw-1''"
    using d'(3) by (simp add: observedFields_def emptyRoute_def aws_StringValue_def)
  have t: "Get d' ''route_table_id'' = ''rtb-1''"
    using d'(3) by (simp add: observedFields_def exRecorded_Get)
  from 1 2 3 d'(1,2) g t show ?thesis by (simp add: exRecorded_Get)
qed

text \<open>
  Claim C5 as stated fails: when the describe call fails with an error other than table
  not found, read neither clears the identity nor overwrites a field; it returns the error.
\<close>

theorem read_other_error_counterexample:
  "resourceAwsRouteRead scripted specCidrBlocksEqual exRecorded
     (script [] [] [] [Inl (AWSError ''RequestLimitExceeded'' ''slow down'')])
   = ((Some (AWSError ''RequestLimitExceeded'' ''slow down''), exRecorded),
      \<lparr>world = scriptDone,
       trace = [CallDescribeRouteTables [''rtb-1'']
                  (Inl (AWSError ''RequestLimitExceeded'' ''slow down''))]\<rparr>)"
  by (simp add: resourceAwsRouteRead_def resourceAwsRouteFindRoute_def describe_scripted
      exRecorded_Get isAWSErr_code)

text \<open>
  Claim C10, amended. When the describe call succeeds, the locator called with both query
  destinations empty returns absent with no error, whatever tables and routes the answer
  holds. Consequently a read whose recorded destinations are both empty clears the identity
  and returns no error when the describe call succeeds, and also when it reports the table
  as not found.
\<close>

theorem locator_no_destination:
  "(conn_DescribeRouteTables conn [rtbid] s = (Inr tables, s') \<longrightarrow>
      resourceAwsRouteFindRoute conn cidrBlocksEqual rtbid [] [] s = (Inr None, s')) \<and>
   (Get d ''destination_cidr_block'' = [] \<and> Get d ''destination_ipv6_cidr_block'' = [] \<and>
    (conn_DescribeRouteTables conn [Get d ''route_table_id''] s = (Inr tables, s') \<or>
     conn_DescribeRouteTables conn [Get d ''route_table_id''] s =
       (Inl (AWSError ''InvalidRouteTableID.NotFound'' m), s')) \<longrightarrow>
      resourceAwsRouteRead conn cidrBlocksEqual d s = ((None, SetId d []), s'))"
proof -
  have 1: "conn_DescribeRouteTables conn [rtbid] s = (Inr tables, s') \<longrightarrow>
      resourceAwsRouteFindRoute conn cidrBlocksEqual rtbid [] [] s = (Inr None, s')"
    using FindRoute_no_destination by blast
  have 2: "Get d ''destination_cidr_block'' = [] \<and> Get d ''destination_ipv6_cidr_block'' = [] \<and>
     conn_DescribeRouteTables conn [Get d ''route_table_id''] s = (Inr tables, s') \<longrightarrow>
      resourceAwsRouteRead conn cidrBlocksEqual d s = ((None, SetId d []), s')"
    using FindRoute_no_destination [of conn "Get d ''route_table_id''" s tables s' cidrBlocksEqual]
      Read_absent [of conn cidrBlocksEqual d s s'] by auto
  have 3: "conn_DescribeRouteTables conn [Get d ''route_table_id''] s =
       (Inl (AWSError ''InvalidRouteTableID.NotFound'' m), s') \<longrightarrow>
      resourceAwsRouteRead conn cidrBlocksEqual d s = ((None, SetId d []), s')"
    using Read_error FindRoute_error by (fastforce simp: isAWSErr_code)
  from 1 2 3 show ?thesis by blast
qed

text \<open>
  The theorem on the scripted remote: the locator on the example table, and read of a
  record without destinations on the example table and on a table reported as not found.
\<close>

theorem locator_no_destination_witness:
  "resourceAwsRouteFindRoute scripted specCidrBlocksEqual ''rtb-1'' [] []
     (script [] [] [] [Inr [Some exTable]])
   = (Inr None,
      \<lparr>world = scriptDone, trace = [CallDescribeRouteTables [''rtb-1''] (Inr [Some exTable])]\<rparr>) \<and>
   resourceAwsRouteRead scripted specCidrBlocksEqual exNoDestination
     (script [] [] [] [Inr [Some exTable]])
   = ((None, SetId exNoDestination []),
      \<lparr>world = scriptDone, trace = [CallDescribeRouteTables [''rtb-1''] (Inr [Some exTable])]\<rparr>) \<and>
   resourceAwsRouteRead scripted specCidrBlocksEqual exNoDestination
     (script [] [] [] [Inl (AWSError ''InvalidRouteTableID.NotFound'' ''no such table'')])
   = ((None, SetId exNoDestination []),
      \<lparr>world = scriptDone,
       trace = [CallDescribeRouteTables [''rtb-1'']
                  (Inl (AWSError ''InvalidRouteTableID.NotFound'' ''no such table''))]\<rparr>)"
proof -
  let ?nf = "AWSError ''InvalidRouteTableID.NotFound'' ''no such table''"
  have 1: "resourceAwsRouteFindRoute scripted specCidrBlocksEqual ''rtb-1'' [] []
     (script [] [] [] [Inr [Some exTable]])
   = (Inr None,
      \<lparr>world = scriptDone, trace = [CallDescribeRouteTables [''rtb-1''] (Inr [Some exTable])]\<rparr>)"
    using locator_no_destination [where conn = scripted and rtbid = "''rtb-1''"
        and s = "script [] [] [] [Inr [Some exTable]]" and tables = "[Some exTable]"
        and cidrBlocksEqual = specCidrBlocksEqual]
    by (simp add: describe_scripted)
  have 2: "resourceAwsRouteRead scripted specCidrBlocksEqual exNoDestination
     (script [] [] [] [Inr [Some exTable]])
   = ((None, SetId exNoDestination []),
      \<lparr>world = scriptDone, trace = [CallDescribeRouteTables [''rtb-1''] (Inr [Some exTable])]\<rparr>)"
    using locator_no_destination [where conn = scripted and d = exNoDestination
        and s = "script [] [] [] [Inr [Some exTable]]" and tables = "[Some exTable]"
        and cidrBlocksEqual = specCidrBlocksEqual]
    by (simp add: describe_scripted exNoDestination_Get)
  have 3: "resourceAwsRouteRead scripted specCidrBlocksEqual exNoDestination
     (script [] [] [] [Inl ?nf])
   = ((None, SetId exNoDestination []),
      \<lparr>world = scriptDone, trace = [CallDescribeRouteTables [''rtb-1''] (Inl ?nf)]\<rparr>)"
    using locator_no_destination [where conn = scripted and d = exNoDestination
        and s = "script [] [] [] [Inl ?nf]" and m = "''no such table''"
        and cidrBlocksEqual = specCidrBlocksEqual]
    by (simp add: describe_scripted exNoDestination_Get)
  from 1 2 3 show ?thesis by blast
qed

text \<open>
  Claim C10 as stated fails for a table id whose describe call fails: the locator returns
  the error, not absent, and a read that meets an error other than table not found returns
  it.
\<close>

theorem locator_no_destination_counterexample:
  "resourceAwsRouteFindRoute scripted specCidrBlocksEqual ''rtb-9'' [] []
     (script [] [] [] [Inl (AWSError ''InvalidRouteTableID.NotFound'' ''no such table'')])
   = (Inl (AWSError ''InvalidRouteTableID.NotFound'' ''no such table''),
      \<lparr>world = scriptDone,
       trace = [CallDescribeRouteTables [''rtb-9'']
                  (Inl (AWSError ''InvalidRouteTableID.NotFound'' ''no such table''))]\<rparr>) \<and>
   resourceAwsRouteRead scripted specCidrBlocksEqual exNoDestination
     (script [] [] [] [Inl (AWSError ''RequestLimitExceeded'' ''slow down'')])
   = ((Some (AWSError ''RequestLimitExceeded'' ''slow down''), exNoDestination),
      \<lparr>world = scriptDone,
       trace = [CallDescribeRouteTables [''rtb-1'']
                  (Inl (AWSError ''RequestLimitExceeded'' ''slow down''))]\<rparr>)"
  by (simp add: resourceAwsRouteRead_def resourceAwsRouteFindRoute_def describe_scripted
      exNoDestination_Get isAWSErr_code)

section \<open>Delete\<close>

text \<open>The delete loop: unless it ends in success, no answer it saw was "route not found".\<close>

lemma delete_loop_events:
  "Retry_loop budget (delete_attempt conn opts) lastError s = (r, s1) \<Longrightarrow>
   \<exists>evs. trace s1 = trace s @ evs \<and>
         (r \<noteq> None \<longrightarrow>
            (\<forall>x m. CallDeleteRoute x (Some (AWSError ''InvalidRoute.NotFound'' m)) \<notin> set evs))"
proof (induction budget arbitrary: lastError s)
  case 0
  then show ?case by simp
next
  case (Suc budget)
  obtain err s' where c: "conn_DeleteRoute conn opts s = (err, s')"
    by (cases "conn_DeleteRoute conn opts s")
  note t = conn_DeleteRoute_trace [OF c]
  show ?case
  proof (cases err)
    case None
    with c have "delete_attempt conn opts s = (None, s')"
      by (simp add: delete_attempt_def)
    with Suc.prems have "r = None" "s1 = s'" by auto
    with t show ?thesis by auto
  next
    case (Some e)
    show ?thesis
    proof (cases "isAWSErr err ''InvalidRoute.NotFound'' []")
      case True
      with c Some have "delete_attempt conn opts s = (None, s')"
        by (simp add: delete_attempt_def)
      with Suc.prems have "r = None" "s1 = s'" by auto
      with t show ?thesis by auto
    next
      case nf: False
      then have other: "\<forall>x m. CallDeleteRoute x (Some (AWSError ''InvalidRoute.NotFound'' m))
                        \<noteq> CallDeleteRoute opts err"
        by (auto simp: isAWSErr_iff)
      show ?thesis
      proof (cases "isAWSErr err ''InvalidParameterException'' []")
        case True
        with c Some nf have "delete_attempt conn opts s = (Some (Retryable e), s')"
          by (simp add: delete_attempt_def resource_RetryableError_def)
        with Suc.prems
        have "Retry_loop budget (delete_attempt conn opts) (Some e) s' = (r, s1)"
          by simp
        from Suc.IH [OF this] obtain evs where
          evs: "trace s1 = trace s' @ evs"
            "r \<noteq> None \<longrightarrow>
               (\<forall>x m. CallDeleteRoute x (Some (AWSError ''InvalidRoute.NotFound'' m)) \<notin> set evs)"
          by blast
        with other t show ?thesis by auto
      next
        case False
        with c Some nf have "delete_attempt conn opts s = (Some (NonRetryable e), s')"
          by (simp add: delete_attempt_def resource_NonRetryableError_def)
        with Suc.prems have "r = Some e" "s1 = s'" by auto
        with other t show ?thesis by auto
      qed
    qed
  qed
qed

lemma delete_in_loop_example:
  "resourceAwsRouteDelete scripted 3 exRecorded
     (script [] [] [Some (AWSError ''InvalidParameterException'' ''propagating''),
                    Some (AWSError ''InvalidRoute.NotFound'' ''no such route'')] [])
   = (None,
      \<lparr>world = scriptDone,
       trace = [CallDeleteRoute (delete_opts exRecorded)
                  (Some (AWSError ''InvalidParameterException'' ''propagating'')),
                CallDeleteRoute (delete_opts exRecorded)
                  (Some (AWSError ''InvalidRoute.NotFound'' ''no such route''))]\<rparr>)"
  by (simp add: resourceAwsRouteDelete_def Retry_def eval_nat_numeral delete_attempt_def
      conn_DeleteRoute_def scripted_def script_def scriptDone_def isAWSErr_code isAWSErr_None
      resource_RetryableError_def isResourceTimeoutError_def)

lemma delete_after_timeout_example:
  "resourceAwsRouteDelete scripted 1 exRecorded
     (script [] [] [Some (AWSError ''InvalidParameterException'' ''propagating''),
                    Some (AWSError ''InvalidRoute.NotFound'' ''no such route'')] [])
   = (None,
      \<lparr>world = scriptDone,
       trace = [CallDeleteRoute (delete_opts exRecorded)
                  (Some (AWSError ''InvalidParameterException'' ''propagating'')),
                CallDeleteRoute (delete_opts exRecorded)
                  (Some (AWSError ''InvalidRoute.NotFound'' ''no such route''))]\<rparr>)"
  by (simp add: resourceAwsRouteDelete_def Retry_def delete_attempt_def
      conn_DeleteRoute_def scripted_def script_def scriptDone_def isAWSErr_code isAWSErr_None
      resource_RetryableError_def isResourceTimeoutError_def)

text \<open>
  Claim C4. If any answer of the remote to a delete call made by this delete operation,
  in the retry loop or in the attempt after the timeout, is "route not found" (error code
  \<open>InvalidRoute.NotFound\<close>), the operation returns no error. This holds for every remote,
  every retry budget and every resource data.
\<close>

theorem delete_idempotent:
  assumes "CallDeleteRoute opts (Some (AWSError ''InvalidRoute.NotFound'' m))
             \<in> set (newEvents s (snd (resourceAwsRouteDelete conn budget d s)))"
  shows "fst (resourceAwsRouteDelete conn budget d s) = None"
proof -
  obtain err s1 where r: "Retry budget (delete_attempt conn (delete_opts d)) s = (err, s1)"
    by (cases "Retry budget (delete_attempt conn (delete_opts d)) s")
  then obtain evs where evs: "trace s1 = trace s @ evs"
    "err \<noteq> None \<longrightarrow>
       (\<forall>x m. CallDeleteRoute x (Some (AWSError ''InvalidRoute.NotFound'' m)) \<notin> set evs)"
    using delete_loop_events [of budget conn "delete_opts d" None s err s1]
    by (auto simp: Retry_def)
  show ?thesis
  proof (cases "isResourceTimeoutError err")
    case True
    obtain err' s2 where c: "conn_DeleteRoute conn (delete_opts d) s1 = (err', s2)"
      by (cases "conn_DeleteRoute conn (delete_opts d) s1")
    from True have "err \<noteq> None" by (auto simp: isResourceTimeoutError_def split: option.splits)
    with evs have no: "\<forall>x m. CallDeleteRoute x (Some (AWSError ''InvalidRoute.NotFound'' m)) \<notin> set evs"
      by blast
    have tr: "trace s2 = trace s @ evs @ [CallDeleteRoute (delete_opts d) err']"
      using conn_DeleteRoute_trace [OF c] evs by simp
    have res: "resourceAwsRouteDelete conn budget d s =
        (if isAWSErr err' ''InvalidRoute.NotFound'' [] then None
         else (case err' of Some e \<Rightarrow> Some (Errorf ''Error deleting route: %s'' [ArgError e])
               | None \<Rightarrow> None), s2)"
      using r c True by (simp add: resourceAwsRouteDelete_def split: option.splits)
    then have "newEvents s (snd (resourceAwsRouteDelete conn budget d s))
        = evs @ [CallDeleteRoute (delete_opts d) err']"
      using tr by (simp add: newEvents_def)
    with assms no have "err' = Some (AWSError ''InvalidRoute.NotFound'' m)" by auto
    then show ?thesis using res by (simp add: isAWSErr_code)
  next
    case False
    show ?thesis
    proof (cases err)
      case None
      with r False show ?thesis
        by (simp add: resourceAwsRouteDelete_def isAWSErr_None)
    next
      case (Some e)
      with evs have no: "\<forall>x m. CallDeleteRoute x (Some (AWSError ''InvalidRoute.NotFound'' m)) \<notin> set evs"
        by blast
      have "snd (resourceAwsRouteDelete conn budget d s) = s1"
        using r False by (simp add: resourceAwsRouteDelete_def split: option.splits)
      then have "newEvents s (snd (resourceAwsRouteDelete conn budget d s)) = evs"
        using evs by (simp add: newEvents_def)
      with assms no show ?thesis by auto
    qed
  qed
qed

text \<open>
  The theorem on the scripted remote: "route not found" as the second answer within a
  budget of three attempts, and as the answer to the attempt made after a budget of one
  attempt has elapsed.
\<close>

theorem delete_idempotent_witness:
  "fst (resourceAwsRouteDelete scripted 3 exRecorded
          (script [] [] [Some (AWSError ''InvalidParameterException'' ''propagating''),
                         Some (AWSError ''InvalidRoute.NotFound'' ''no such route'')] [])) = None \<and>
   fst (resourceAwsRouteDelete scripted 1 exRecorded
          (script [] [] [Some (AWSError ''InvalidParameterException'' ''propagating''),
                         Some (AWSError ''InvalidRoute.NotFound'' ''no such route'')] [])) = None"
proof -
  let ?s = "script [] [] [Some (AWSError ''InvalidParameterException'' ''propagating''),
                          Some (AWSError ''InvalidRoute.NotFound'' ''no such route'')] []"
  have m3: "CallDeleteRoute (delete_opts exRecorded)
              (Some (AWSError ''InvalidRoute.NotFound'' ''no such route''))
            \<in> set (newEvents ?s (snd (resourceAwsRouteDelete scripted 3 exRecorded ?s)))"
    unfolding delete_in_loop_example by (simp add: newEvents_def trace_script)
  have m1: "CallDeleteRoute (delete_opts exRecorded)
              (Some (AWSError ''InvalidRoute.NotFound'' ''no such route''))
            \<in> set (newEvents ?s (snd (resourceAwsRouteDelete scripted 1 exRecorded ?s)))"
    unfolding delete_after_timeout_example by (simp add: newEvents_def trace_script)
  from delete_idempotent [OF m3] delete_idempotent [OF m1] show ?thesis by blast
qed

section \<open>Convergence loop and final attempt\<close>

text \<open>The convergence loop: when the budget elapses, the loop returns its timeout error
  after exactly as many attempts as the budget, each of which made one remote call.\<close>

lemma budgetElapses_timeout:
  "budgetElapses budget f s \<Longrightarrow> isResourceTimeoutError (fst (Retry_loop budget f lastError s))"
proof (induction budget arbitrary: lastError s)
  case 0
  then show ?case by (simp add: isResourceTimeoutError_def)
next
  case (Suc budget)
  then show ?case
    by (cases "f s") (auto split: option.splits RetryError.splits)
qed

lemma budgetElapses_count:
  assumes one: "\<And>s. \<exists>ev. tr (snd (f s)) = tr s @ [ev]"
  shows "budgetElapses budget f s \<Longrightarrow>
         \<exists>evs. tr (snd (Retry_loop budget f lastError s)) = tr s @ evs \<and> length evs = budget"
proof (induction budget arbitrary: lastError s)
  case 0
  then show ?case by simp
next
  case (Suc budget)
  obtain x s' where fs: "f s = (x, s')" by (cases "f s")
  with Suc.prems obtain e where x: "x = Some (Retryable e)" and el: "budgetElapses budget f s'"
    by (auto split: option.splits RetryError.splits)
  from one [of s] fs obtain ev where ev: "tr s' = tr s @ [ev]" by auto
  from Suc.IH [OF el, of "Some e"] obtain evs where
    "tr (snd (Retry_loop budget f (Some e) s')) = tr s' @ evs" "length evs = budget"
    by blast
  with ev fs x show ?case by auto
qed

lemma create_attempt_one_call:
  "\<exists>ev. trace (snd (create_attempt conn opts s)) = trace s @ [ev]"
  by (cases "conn_CreateRoute conn opts s")
     (auto simp: create_attempt_def dest: conn_CreateRoute_trace)

lemma delete_attempt_one_call:
  "\<exists>ev. trace (snd (delete_attempt conn opts s)) = trace s @ [ev]"
  by (cases "conn_DeleteRoute conn opts s")
     (auto simp: delete_attempt_def dest: conn_DeleteRoute_trace)

lemma find_attempt_one_call:
  "\<exists>ev. (trace \<circ> snd) (snd (find_attempt conn cidrBlocksEqual rtbid cidr ipv6cidr rs))
          = (trace \<circ> snd) rs @ [ev]"
  using FindRoute_one_call [of conn cidrBlocksEqual rtbid cidr ipv6cidr "snd rs"]
  by (cases "resourceAwsRouteFindRoute conn cidrBlocksEqual rtbid cidr ipv6cidr (snd rs)")
     (auto simp: find_attempt_def split: sum.splits option.splits)

lemma create_call_after_timeout:
  assumes "budgetElapses budget (create_attempt conn opts) s"
  shows "create_call conn budget opts s =
           conn_CreateRoute conn opts (snd (Retry budget (create_attempt conn opts) s))"
    and "length (newEvents s (snd (create_call conn budget opts s))) = budget + 1"
proof -
  let ?r = "Retry budget (create_attempt conn opts) s"
  have to: "isResourceTimeoutError (fst ?r)"
    using budgetElapses_timeout [OF assms] by (simp add: Retry_def)
  obtain err0 s1 where r: "?r = (err0, s1)" by (cases ?r)
  with to show eq: "create_call conn budget opts s = conn_CreateRoute conn opts (snd ?r)"
    by (simp add: create_call_def)
  obtain evs where evs: "trace (snd ?r) = trace s @ evs" "length evs = budget"
    using budgetElapses_count [of trace "create_attempt conn opts", OF create_attempt_one_call assms]
    by (auto simp: Retry_def)
  obtain err s2 where c: "conn_CreateRoute conn opts (snd ?r) = (err, s2)"
    by (cases "conn_CreateRoute conn opts (snd ?r)")
  from conn_CreateRoute_trace [OF c] evs eq c
  show "length (newEvents s (snd (create_call conn budget opts s))) = budget + 1"
    by (simp add: newEvents_def)
qed

lemma delete_after_timeout:
  assumes "budgetElapses budget (delete_attempt conn (delete_opts d)) s"
  shows "resourceAwsRouteDelete conn budget d s =
           (case conn_DeleteRoute conn (delete_opts d)
                   (snd (Retry budget (delete_attempt conn (delete_opts d)) s)) of
              (err, s2) \<Rightarrow>
                (if isAWSErr err ''InvalidRoute.NotFound'' [] then None
                 else map_option (\<lambda>e. Errorf ''Error deleting route: %s'' [ArgError e]) err, s2))"
    and "length (newEvents s (snd (resourceAwsRouteDelete conn budget d s))) = budget + 1"
proof -
  let ?r = "Retry budget (delete_attempt conn (delete_opts d)) s"
  have to: "isResourceTimeoutError (fst ?r)"
    using budgetElapses_timeout [OF assms] by (simp add: Retry_def)
  then show eq: "resourceAwsRouteDelete conn budget d s =
           (case conn_DeleteRoute conn (delete_opts d) (snd ?r) of
              (err, s2) \<Rightarrow>
                (if isAWSErr err ''InvalidRoute.NotFound'' [] then None
                 else map_option (\<lambda>e. Errorf ''Error deleting route: %s'' [ArgError e]) err, s2))"
  proof -
    obtain err0 s1 where r: "?r = (err0, s1)" by (cases ?r)
    obtain err s2 where c: "conn_DeleteRoute conn (delete_opts d) s1 = (err, s2)"
      by (cases "conn_DeleteRoute conn (delete_opts d) s1")
    from to r c show ?thesis
      by (cases err) (simp_all add: resourceAwsRouteDelete_def isAWSErr_None)
  qed
  obtain evs where evs: "trace (snd ?r) = trace s @ evs" "length evs = budget"
    using budgetElapses_count [of trace "delete_attempt conn (delete_opts d)",
        OF delete_attempt_one_call assms]
    by (auto simp: Retry_def)
  obtain err s2 where c: "conn_DeleteRoute conn (delete_opts d) (snd ?r) = (err, s2)"
    by (cases "conn_DeleteRoute conn (delete_opts d) (snd ?r)")
  from conn_DeleteRoute_trace [OF c] evs eq c
  show "length (newEvents s (snd (resourceAwsRouteDelete conn budget d s))) = budget + 1"
    by (simp add: newEvents_def)
qed

lemma find_confirm_after_timeout:
  assumes "budgetElapses budget (find_attempt conn cidrBlocksEqual rtbid cidr ipv6cidr) rs"
  shows "find_confirm conn cidrBlocksEqual budget notFoundFormat rtbid cidr ipv6cidr rs =
           (case resourceAwsRouteFindRoute conn cidrBlocksEqual rtbid cidr ipv6cidr
                   (snd (snd (Retry budget
                      (find_attempt conn cidrBlocksEqual rtbid cidr ipv6cidr) rs))) of
              (Inl e, s2) \<Rightarrow>
                (Inl (Errorf ''Error finding route after creating it: %s'' [ArgError e]), s2)
            | (Inr None, s2) \<Rightarrow>
                (Inl (Errorf notFoundFormat
                        [ArgString rtbid, ArgString (if cidr \<noteq> [] then cidr else ipv6cidr)]), s2)
            | (Inr (Some r), s2) \<Rightarrow> (Inr (Some r), s2))"
    and "length (newEvents (snd rs)
           (snd (find_confirm conn cidrBlocksEqual budget notFoundFormat rtbid cidr ipv6cidr rs)))
         = budget + 1"
proof -
  let ?f = "find_attempt conn cidrBlocksEqual rtbid cidr ipv6cidr"
  let ?r = "Retry budget ?f rs"
  let ?s1 = "snd (snd ?r)"
  have to: "isResourceTimeoutError (fst ?r)"
    using budgetElapses_timeout [OF assms] by (simp add: Retry_def)
  then show eq: "find_confirm conn cidrBlocksEqual budget notFoundFormat rtbid cidr ipv6cidr rs =
           (case resourceAwsRouteFindRoute conn cidrBlocksEqual rtbid cidr ipv6cidr ?s1 of
              (Inl e, s2) \<Rightarrow>
                (Inl (Errorf ''Error finding route after creating it: %s'' [ArgError e]), s2)
            | (Inr None, s2) \<Rightarrow>
                (Inl (Errorf notFoundFormat
                        [ArgString rtbid, ArgString (if cidr \<noteq> [] then cidr else ipv6cidr)]), s2)
            | (Inr (Some r), s2) \<Rightarrow> (Inr (Some r), s2))"
  proof -
    obtain err0 route0 s1 where r: "?r = (err0, (route0, s1))" by (cases ?r) auto
    obtain res s2 where
      c: "resourceAwsRouteFindRoute conn cidrBlocksEqual rtbid cidr ipv6cidr s1 = (res, s2)"
      by (cases "resourceAwsRouteFindRoute conn cidrBlocksEqual rtbid cidr ipv6cidr s1")
    from to r c show ?thesis
      by (cases res) (simp_all add: find_confirm_def split: option.splits)
  qed
  obtain evs where evs: "trace ?s1 = trace (snd rs) @ evs" "length evs = budget"
    using budgetElapses_count [of "trace \<circ> snd" ?f, OF find_attempt_one_call assms]
    by (auto simp: Retry_def)
  obtain resp where
    "trace (snd (resourceAwsRouteFindRoute conn cidrBlocksEqual rtbid cidr ipv6cidr ?s1))
       = trace ?s1 @ [CallDescribeRouteTables [rtbid] resp]"
    using FindRoute_one_call by blast
  with evs eq
  show "length (newEvents (snd rs)
           (snd (find_confirm conn cidrBlocksEqual budget notFoundFormat rtbid cidr ipv6cidr rs)))
         = budget + 1"
    by (auto simp: newEvents_def split: prod.splits sum.splits option.splits)
qed

lemma create_after_timeout_error:
  assumes "create_payload d = Inr (t, opts)"
    and "budgetElapses budget (create_attempt conn opts) s"
    and "conn_CreateRoute conn opts (snd (Retry budget (create_attempt conn opts) s)) = (Some e, s2)"
  shows "resourceAwsRouteCreate conn cidrBlocksEqual crc32 budget budget4 budget6 d s =
           (Some (Some (Errorf ''Error creating route: %s'' [ArgError e]), d), s2)"
  using assms(1,3) create_call_after_timeout(1) [OF assms(2)]
  by (simp add: resourceAwsRouteCreate_def)

text \<open>
  Claim C7. For each retried step (the create call, a confirmation lookup of create, the
  delete call): when the budget elapses, that is when each of the attempts the budget leaves
  room for ends in a retryable failure, the step makes one more direct call on the state the
  loop left, and the outcome is the one that call decides. The step has then made one remote
  call per attempt of the budget and exactly one more. For create the error of the direct
  call is returned wrapped in "Error creating route"; a confirmation lookup fails with the
  lookup's error or, when the route is still absent, with its not-found message, and else
  goes on with the route; delete returns success for no error and for "route not found",
  and else the error wrapped in "Error deleting route".
\<close>

theorem final_attempt_after_timeout:
  "(budgetElapses budget (create_attempt conn opts) s \<longrightarrow>
      create_call conn budget opts s =
        conn_CreateRoute conn opts (snd (Retry budget (create_attempt conn opts) s)) \<and>
      length (newEvents s (snd (create_call conn budget opts s))) = budget + 1) \<and>
   (create_payload d = Inr (t, opts) \<and>
    budgetElapses budget (create_attempt conn opts) s \<and>
    conn_CreateRoute conn opts (snd (Retry budget (create_attempt conn opts) s)) = (Some e, s2)
    \<longrightarrow>
      resourceAwsRouteCreate conn cidrBlocksEqual crc32 budget budget4 budget6 d s =
        (Some (Some (Errorf ''Error creating route: %s'' [ArgError e]), d), s2)) \<and>
   (budgetElapses budget (find_attempt conn cidrBlocksEqual rtbid cidr ipv6cidr) rs \<longrightarrow>
      find_confirm conn cidrBlocksEqual budget notFoundFormat rtbid cidr ipv6cidr rs =
        (case resourceAwsRouteFindRoute conn cidrBlocksEqual rtbid cidr ipv6cidr
                (snd (snd (Retry budget
                   (find_attempt conn cidrBlocksEqual rtbid cidr ipv6cidr) rs))) of
           (Inl e, s2) \<Rightarrow>
             (Inl (Errorf ''Error finding route after creating it: %s'' [ArgError e]), s2)
         | (Inr None, s2) \<Rightarrow>
             (Inl (Errorf notFoundFormat
                     [ArgString rtbid, ArgString (if cidr \<noteq> [] then cidr else ipv6cidr)]), s2)
         | (Inr (Some r), s2) \<Rightarrow> (Inr (Some r), s2)) \<and>
      length (newEvents (snd rs)
        (snd (find_confirm conn cidrBlocksEqual budget notFoundFormat rtbid cidr ipv6cidr rs)))
      = budget + 1) \<and>
   (budgetElapses budget (delete_attempt conn (delete_opts d)) s \<longrightarrow>
      resourceAwsRouteDelete conn budget d s =
        (case conn_DeleteRoute conn (delete_opts d)
                (snd (Retry budget (delete_attempt conn (delete_opts d)) s)) of
           (err, s2) \<Rightarrow>
             (if isAWSErr err ''InvalidRoute.NotFound'' [] then None
              else map_option (\<lambda>e. Errorf ''Error deleting route: %s'' [ArgError e]) err, s2)) \<and>
      length (newEvents s (snd (resourceAwsRouteDelete conn budget d s))) = budget + 1)"
  using create_call_after_timeout [of budget conn opts s]
    create_after_timeout_error [of d t opts budget conn s e s2 cidrBlocksEqual crc32 budget4 budget6]
    find_confirm_after_timeout [of budget conn cidrBlocksEqual rtbid cidr ipv6cidr rs notFoundFormat]
    delete_after_timeout [of budget conn d s]
  by blast

text \<open>
  The theorem on the scripted remote: a create call that succeeds in the attempt after two
  retryable failures; a create that fails in the attempt after the timeout; a confirmation
  lookup that finds the route in the attempt after one absent answer; a delete that fails
  in the attempt after the timeout.
\<close>

theorem final_attempt_after_timeout_witness:
  "fst (create_call scripted 2 exCreateOpts
          (script [Some (AWSError ''InvalidParameterException'' ''propagating''),
                   Some (AWSError ''InvalidTransitGatewayID.NotFound'' ''not yet''),
                   None] [] [] [])) = None \<and>
   length (newEvents
      (script [Some (AWSError ''InvalidParameterException'' ''propagating''),
               Some (AWSError ''InvalidTransitGatewayID.NotFound'' ''not yet''),
               None] [] [] [])
      (snd (create_call scripted 2 exCreateOpts
          (script [Some (AWSError ''InvalidParameterException'' ''propagating''),
                   Some (AWSError ''InvalidTransitGatewayID.NotFound'' ''not yet''),
                   None] [] [] [])))) = 3 \<and>
   fst (resourceAwsRouteCreate scripted specCidrBlocksEqual lengthChecksum 1 1 1 exRecorded
          (script [Some (AWSError ''InvalidParameterException'' ''propagating''),
                   Some (AWSError ''RouteLimitExceeded'' ''too many'')] [] [] []))
     = Some (Some (Errorf ''Error creating route: %s''
                     [ArgError (AWSError ''RouteLimitExceeded'' ''too many'')]), exRecorded) \<and>
   fst (find_confirm scripted specCidrBlocksEqual 1 ''%s %s'' ''rtb-1'' ''10.0.0.0/16'' []
          (None, script [] [] [] [Inr [Some \<lparr>Routes = []\<rparr>], Inr [Some exTable]]))
     = Inr (Some (emptyRoute\<lparr>DestinationCidrBlock := Some ''10.0.0.0/16'',
                               GatewayId := Some ''igw-1''\<rparr>)) \<and>
   length (newEvents (script [] [] [] [Inr [Some \<lparr>Routes = []\<rparr>], Inr [Some exTable]])
      (snd (find_confirm scripted specCidrBlocksEqual 1 ''%s %s'' ''rtb-1'' ''10.0.0.0/16'' []
          (None, script [] [] [] [Inr [Some \<lparr>Routes = []\<rparr>], Inr [Some exTable]])))) = 2 \<and>
   fst (resourceAwsRouteDelete scripted 1 exRecorded
          (script [] [] [Some (AWSError ''InvalidParameterException'' ''propagating''),
                         Some (AWSError ''DependencyViolation'' ''in use'')] []))
     = Some (Errorf ''Error deleting route: %s''
               [ArgError (AWSError ''DependencyViolation'' ''in use'')]) \<and>
   length (newEvents
      (script [] [] [Some (AWSError ''InvalidParameterException'' ''propagating''),
                     Some (AWSError ''DependencyViolation'' ''in use'')] [])
      (snd (resourceAwsRouteDelete scripted 1 exRecorded
          (script [] [] [Some (AWSError ''InvalidParameterException'' ''propagating''),
                         Some (AWSError ''DependencyViolation'' ''in use'')] [])))) = 2"
proof -
  let ?ip = "AWSError ''InvalidParameterException'' ''propagating''"
  let ?tg = "AWSError ''InvalidTransitGatewayID.NotFound'' ''not yet''"
  let ?rl = "AWSError ''RouteLimitExceeded'' ''too many''"
  let ?dv = "AWSError ''DependencyViolation'' ''in use''"
  let ?sc = "script [Some ?ip, Some ?tg, None] [] [] []"
  let ?sc2 = "script [Some ?ip, Some ?rl] [] [] []"
  let ?sf = "script [] [] [] [Inr [Some \<lparr>Routes = []\<rparr>], Inr [Some exTable]]"
  let ?sd = "script [] [] [Some ?ip, Some ?dv] []"
  have bc: "budgetElapses 2 (create_attempt scripted exCreateOpts) ?sc"
    by (simp add: eval_nat_numeral create_attempt_def scripted_eval)
  have rc: "conn_CreateRoute scripted exCreateOpts
              (snd (Retry 2 (create_attempt scripted exCreateOpts) ?sc))
            = (None, \<lparr>world = scriptDone,
                      trace = [CallCreateRoute exCreateOpts (Some ?ip),
                               CallCreateRoute exCreateOpts (Some ?tg),
                               CallCreateRoute exCreateOpts None]\<rparr>)"
    by (simp add: eval_nat_numeral Retry_def create_attempt_def scripted_eval)
  note c1 = final_attempt_after_timeout [where budget = 2 and conn = scripted
        and opts = exCreateOpts and s = ?sc, THEN conjunct1, rule_format, OF bc]
  have 1: "fst (create_call scripted 2 exCreateOpts ?sc) = None"
    using c1 [THEN conjunct1] rc by simp
  have len1: "length (newEvents ?sc (snd (create_call scripted 2 exCreateOpts ?sc))) = 3"
    using c1 [THEN conjunct2] by simp
  have p: "create_payload exRecorded = Inr (''gateway_id'', exCreateOpts)"
    by (simp add: create_payload_def create_allowedTargets_def exRecorded_Get
        create_switch_def create_setDestinations_def GetOk_def exCreateOpts_def
        exRecorded_def SetId_def resourceData_def Get_def)
  have bc2: "budgetElapses 1 (create_attempt scripted exCreateOpts) ?sc2"
    by (simp add: create_attempt_def scripted_eval)
  have rc2: "conn_CreateRoute scripted exCreateOpts
              (snd (Retry 1 (create_attempt scripted exCreateOpts) ?sc2))
            = (Some ?rl, \<lparr>world = scriptDone,
                      trace = [CallCreateRoute exCreateOpts (Some ?ip),
                               CallCreateRoute exCreateOpts (Some ?rl)]\<rparr>)"
    by (simp add: Retry_def create_attempt_def scripted_eval)
  have 2: "fst (resourceAwsRouteCreate scripted specCidrBlocksEqual lengthChecksum 1 1 1
                  exRecorded ?sc2)
           = Some (Some (Errorf ''Error creating route: %s'' [ArgError ?rl]), exRecorded)"
    using final_attempt_after_timeout [where budget = 1 and conn = scripted
        and opts = exCreateOpts and s = ?sc2 and d = exRecorded and t = "''gateway_id''"
        and e = ?rl and cidrBlocksEqual = specCidrBlocksEqual and ?crc32.0 = lengthChecksum
        and ?budget4.0 = 1 and ?budget6.0 = 1, THEN conjunct2, THEN conjunct1, rule_format,
        OF conjI [OF p conjI [OF bc2 rc2]]]
    by simp
  have bf: "budgetElapses 1
              (find_attempt scripted specCidrBlocksEqual ''rtb-1'' ''10.0.0.0/16'' []) (None, ?sf)"
    by (simp add: find_attempt_def resourceAwsRouteFindRoute_def scripted_eval)
  have rf: "resourceAwsRouteFindRoute scripted specCidrBlocksEqual ''rtb-1'' ''10.0.0.0/16'' []
              (snd (snd (Retry 1
                 (find_attempt scripted specCidrBlocksEqual ''rtb-1'' ''10.0.0.0/16'' [])
                 (None, ?sf))))
            = (Inr (Some (emptyRoute\<lparr>DestinationCidrBlock := Some ''10.0.0.0/16'',
                                        GatewayId := Some ''igw-1''\<rparr>)),
               \<lparr>world = scriptDone,
                trace = [CallDescribeRouteTables [''rtb-1''] (Inr [Some \<lparr>Routes = []\<rparr>]),
                         CallDescribeRouteTables [''rtb-1''] (Inr [Some exTable])]\<rparr>)"
    by (simp add: Retry_def find_attempt_def resourceAwsRouteFindRoute_def scripted_eval
        exTable_def emptyRoute_def)
  note c3 = final_attempt_after_timeout [where budget = 1 and conn = scripted
        and cidrBlocksEqual = specCidrBlocksEqual and rtbid = "''rtb-1''"
        and cidr = "''10.0.0.0/16''" and ipv6cidr = "[]" and rs = "(None, ?sf)"
        and notFoundFormat = "''%s %s''", THEN conjunct2, THEN conjunct2, THEN conjunct1,
        rule_format, OF bf]
  have 3: "fst (find_confirm scripted specCidrBlocksEqual 1 ''%s %s'' ''rtb-1'' ''10.0.0.0/16'' []
                  (None, ?sf))
           = Inr (Some (emptyRoute\<lparr>DestinationCidrBlock := Some ''10.0.0.0/16'',
                                      GatewayId := Some ''igw-1''\<rparr>))"
    using c3 [THEN conjunct1] rf by simp
  have len3: "length (newEvents ?sf
        (snd (find_confirm scripted specCidrBlocksEqual 1 ''%s %s'' ''rtb-1'' ''10.0.0.0/16'' []
                (None, ?sf)))) = 2"
    using c3 [THEN conjunct2] by simp
  have bd: "budgetElapses 1 (delete_attempt scripted (delete_opts exRecorded)) ?sd"
    by (simp add: delete_attempt_def scripted_eval)
  have rd: "conn_DeleteRoute scripted (delete_opts exRecorded)
              (snd (Retry 1 (delete_attempt scripted (delete_opts exRecorded)) ?sd))
            = (Some ?dv, \<lparr>world = scriptDone,
                 trace = [CallDeleteRoute (delete_opts exRecorded) (Some ?ip),
                          CallDeleteRoute (delete_opts exRecorded) (Some ?dv)]\<rparr>)"
    by (simp add: Retry_def delete_attempt_def scripted_eval)
  note c4 = final_attempt_after_timeout [where budget = 1 and conn = scripted
        and d = exRecorded and s = ?sd, THEN conjunct2, THEN conjunct2, THEN conjunct2,
        rule_format, OF bd]
  have 4: "fst (resourceAwsRouteDelete scripted 1 exRecorded ?sd)
           = Some (Errorf ''Error deleting route: %s'' [ArgError ?dv])"
    using c4 [THEN conjunct1] rd by (simp add: isAWSErr_code)
  have len4: "length (newEvents ?sd (snd (resourceAwsRouteDelete scripted 1 exRecorded ?sd))) = 2"
    using c4 [THEN conjunct2] by simp
  from 1 len1 2 3 len3 4 len4 show ?thesis by blast
qed

section \<open>Update and its payload\<close>

text \<open>What holds of update: one replace call, its error returned as it is.\<close>

lemma update_replaces_once:
  assumes "update_payload d = Inr (t, replaceOpts)"
  shows "resourceAwsRouteUpdate conn d s = conn_ReplaceRoute conn replaceOpts s"
    and "newEvents s (snd (resourceAwsRouteUpdate conn d s))
           = [CallReplaceRoute replaceOpts (fst (resourceAwsRouteUpdate conn d s))]"
proof -
  show eq: "resourceAwsRouteUpdate conn d s = conn_ReplaceRoute conn replaceOpts s"
    using assms by (simp add: resourceAwsRouteUpdate_def)
  obtain err s' where c: "conn_ReplaceRoute conn replaceOpts s = (err, s')"
    by (cases "conn_ReplaceRoute conn replaceOpts s")
  from conn_ReplaceRoute_trace [OF c] eq c
  show "newEvents s (snd (resourceAwsRouteUpdate conn d s))
           = [CallReplaceRoute replaceOpts (fst (resourceAwsRouteUpdate conn d s))]"
    by (simp add: newEvents_def)
qed

text \<open>With an IPv4 destination and no IPv6 destination, and one target set, the two
  payloads are the same.\<close>

lemma payloads_agree_ipv4:
  assumes v4: "Get d ''destination_cidr_block'' \<noteq> []"
    and v6: "Get d ''destination_ipv6_cidr_block'' = []"
    and c: "create_payload d = Inr (t, createOpts)"
    and u: "update_payload d = Inr (t', replaceOpts)"
  shows "t' = t \<and> replaceOpts = createOpts"
proof -
  let ?nc = "nonEmptyTargets d create_allowedTargets"
  let ?nu = "nonEmptyTargets d update_allowedTargets"
  have sets: "set ?nu = set ?nc"
    by (auto simp: nonEmptyTargets_def create_allowedTargets_def update_allowedTargets_def)
  have lc: "length ?nc \<le> 1"
    using c by (auto simp: create_payload_def countTargets_filter split: if_splits)
  have "?nc \<noteq> []"
  proof
    assume "?nc = []"
    then have "selectTarget OpCreate d = Inl (missingTargetError create_allowedTargets)"
      by (rule create_select_none)
    with c show False by simp
  qed
  with lc obtain x where x: "?nc = [x]"
    by (cases ?nc) auto
  then have tx: "t = x"
    using c create_select_one [of d x] by simp
  have "distinct ?nu"
    by (rule nonEmptyTargets_distinct) (simp add: update_allowedTargets_def)
  moreover from sets x have "set ?nu = {x}" by simp
  ultimately have nu: "?nu = [x]"
  proof (cases ?nu)
    case Nil
    with \<open>set ?nu = {x}\<close> show ?thesis by simp
  next
    case (Cons y ys)
    with \<open>set ?nu = {x}\<close> have y: "y = x" and sub: "set ys \<subseteq> {x}" by auto
    from Cons \<open>distinct ?nu\<close> y have "x \<notin> set ys" by simp
    with sub have "ys = []" by (cases ys) auto
    with Cons y show ?thesis by simp
  qed
  then have t'x: "t' = x"
    using u update_select_one [of d x] by simp
  have xin: "x \<in> set create_allowedTargets"
    using nonEmptyTargets_subset [of d create_allowedTargets] x by simp
  have cs: "create_switch d x = Inr createOpts"
    using c x by (simp add: create_payload_def countTargets_filter split: sum.splits)
  have us: "update_switch d x = Inr replaceOpts"
    using u nu by (simp add: update_payload_def countTargets_filter update_tooManyTargets_def
        split: sum.splits if_splits)
  have "replaceOpts = createOpts"
    using xin cs us v4 v6
    unfolding create_allowedTargets_def
    by (auto simp: create_switch_def update_switch_def create_setDestinations_def GetOk_def Get_def)
  with tx t'x show ?thesis by simp
qed

text \<open>
  Claim C6 at a route with an IPv6 destination and a gateway target, a record that create
  and update both accept: create's payload carries the IPv6 destination and no IPv4
  destination; update's replace payload carries the empty string as IPv4 destination and no
  IPv6 destination. The two payloads differ.
\<close>

theorem update_payload_ipv6_divergence:
  "create_payload exIpv6Gateway =
     Inr (''gateway_id'',
          emptyRouteInput\<lparr>opts_RouteTableId := Some ''rtb-1'',
                           opts_DestinationIpv6CidrBlock := Some ''2001:db8::/32'',
                           opts_GatewayId := Some ''igw-1''\<rparr>) \<and>
   update_payload exIpv6Gateway =
     Inr (''gateway_id'',
          emptyRouteInput\<lparr>opts_RouteTableId := Some ''rtb-1'',
                           opts_DestinationCidrBlock := Some [],
                           opts_GatewayId := Some ''igw-1''\<rparr>) \<and>
   map_sum id snd (update_payload exIpv6Gateway) \<noteq> map_sum id snd (create_payload exIpv6Gateway)"
  by (simp add: create_payload_def update_payload_def create_allowedTargets_def
      update_allowedTargets_def update_tooManyTargets_def create_switch_def update_switch_def
      create_setDestinations_def GetOk_def exIpv6Gateway_def resourceData_def Get_def
      emptyRouteInput_def)

end
